theory Spec2Isabelle
  imports Main "HOL-Library.Word" "HOL-Library.Multiset"
begin

unbundle bit_operations_syntax

section \<open>Data model of the arena allocator (kern/include/arena.h)\<close>

text \<open>
  Addresses and sizes are \<open>uintptr_t\<close> and \<open>size_t\<close>: 64-bit words whose
  arithmetic wraps. A null pointer is the word 0.
\<close>

type_synonym addr = "64 word"

datatype btag_status = BTAG_FREE | BTAG_ALLOC | BTAG_SPAN

text \<open>
  \<open>struct btag\<close>. The two link fields are not fields of the model: \<open>all_link\<close> is
  the tag's position in \<open>all_segs\<close> and \<open>misc_link\<close> its position in the one list
  that holds it.
\<close>

record btag =
  bt_start :: addr
  bt_size :: addr
  bt_status :: btag_status

text \<open>
  \<open>struct arena\<close>. \<open>all_segs\<close> is the red-black tree read in order (the order
  \<open>rb_first\<close>/\<open>rb_next\<close> walk it); \<open>free_segs\<close> has
  \<open>ARENA_NR_FREE_LISTS\<close> lists and \<open>alloc_hash\<close> has \<open>ARENA_NR_HASH_LISTS\<close>
  chains, each with its head first. A tag's fields do not change while it is on a free
  list or a hash chain, so the lists hold the tags' values. The tags on
  \<open>unused_btags\<close> carry no data that the modelled functions read: the list is its
  length. \<open>has_source\<close> is \<open>source != NULL\<close>; the source's \<open>afunc\<close> and
  \<open>ffunc\<close> are the environment of the functions that call them.
\<close>

record arena =
  import_scale :: nat
  is_base :: bool
  quantum :: addr
  has_source :: bool
  all_segs :: "btag list"
  unused_btags :: nat
  free_segs :: "btag list list"
  alloc_hash :: "btag list list"
  amt_total_segs :: addr
  amt_alloc_segs :: addr
  nr_allocs :: addr
  last_nextfit_alloc :: addr

definition ARENA_NR_FREE_LISTS :: nat where "ARENA_NR_FREE_LISTS = 64"
definition ARENA_NR_HASH_LISTS :: nat where "ARENA_NR_HASH_LISTS = 193"

type_synonym flags = "32 word"

definition ARENA_BESTFIT :: flags where "ARENA_BESTFIT = 0x100"
definition ARENA_INSTANTFIT :: flags where "ARENA_INSTANTFIT = 0x200"
definition ARENA_NEXTFIT :: flags where "ARENA_NEXTFIT = 0x400"
definition ARENA_ALLOC_STYLES :: flags where
  "ARENA_ALLOC_STYLES = ARENA_BESTFIT OR ARENA_INSTANTFIT OR ARENA_NEXTFIT"

text \<open>
  Modelled from the spec: the memory-discipline flags \<open>MEM_ATOMIC\<close>, \<open>MEM_WAIT\<close>,
  \<open>MEM_ERROR\<close> of kmalloc.h, which is not under src/. The spec says only that they
  are bits disjoint from the allocation styles; the values are those bits.
\<close>

definition MEM_ATOMIC :: flags where "MEM_ATOMIC = 0x02"
definition MEM_WAIT :: flags where "MEM_WAIT = 0x04"
definition MEM_ERROR :: flags where "MEM_ERROR = 0x08"
definition MEM_FLAGS :: flags where "MEM_FLAGS = MEM_ATOMIC OR MEM_WAIT OR MEM_ERROR"

text \<open>Every \<open>panic\<close> and failed \<open>assert\<close> of the source is an error value.\<close>

datatype error =
    Panic_zero_request
  | Panic_bad_argument
  | Panic_overflow
  | Panic_OOM
  | Panic_assert
  | Panic_btag_in_tree
  | Panic_unallocated
  | Panic_wrong_size
  | Panic_has_source

section \<open>Macros of ros/common.h\<close>

text \<open>
  Modelled from the spec: \<open>PGSIZE\<close>, \<open>ROUNDUP\<close>, \<open>ROUNDDOWN\<close>, \<open>ALIGNED\<close>,
  \<open>IS_PWR2\<close>, \<open>LOG2_DOWN\<close>, \<open>LOG2_UP\<close> and \<open>MAX\<close> are macros of headers
  that are not under src/. The spec names them \<open>round_up\<close>, \<open>floor(log2)\<close> and
  \<open>ceil(log2)\<close> and fixes \<open>PGSIZE = 4096\<close>. \<open>ROUNDUP\<close> is computed in the
  operand's width, so it wraps with it.
\<close>

definition PGSIZE :: addr where "PGSIZE = 4096"

definition ROUNDDOWN :: "addr \<Rightarrow> addr \<Rightarrow> addr" where
  "ROUNDDOWN a n = a - a mod n"

definition ROUNDUP :: "addr \<Rightarrow> addr \<Rightarrow> addr" where
  "ROUNDUP a n = ROUNDDOWN (a + n - 1) n"

definition ALIGNED :: "addr \<Rightarrow> addr \<Rightarrow> bool" where
  "ALIGNED p a = (p AND (a - 1) = 0)"

definition IS_PWR2 :: "addr \<Rightarrow> bool" where
  "IS_PWR2 x = (x \<noteq> 0 \<and> x AND (x - 1) = 0)"

fun log2_nat :: "nat \<Rightarrow> nat" where
  "log2_nat n = (if n < 2 then 0 else Suc (log2_nat (n div 2)))"

declare log2_nat.simps [simp del]

definition LOG2_DOWN :: "addr \<Rightarrow> nat" where
  "LOG2_DOWN x = log2_nat (unat x)"

definition LOG2_UP :: "addr \<Rightarrow> nat" where
  "LOG2_UP x = (let r = LOG2_DOWN x in if unat x = 2 ^ r then r else r + 1)"

text \<open>
  Modelled from the spec: \<open>__generic_hash\<close> of hashtable.h, which is not under src/.
  The spec says \<open>hash(start) mod 193\<close>; the chain of a start is all that the arena
  uses of it.
\<close>

definition generic_hash :: "addr \<Rightarrow> nat" where
  "generic_hash k = unat k"

definition hash_idx :: "addr \<Rightarrow> nat" where
  "hash_idx s = generic_hash s mod ARENA_NR_HASH_LISTS"

section \<open>The segment tree\<close>

text \<open>
  \<open>__insert_btag\<close>: the descent goes left of a larger start, right of a smaller one
  and right of a SPAN with the same start; a tag that is not a SPAN with the same
  start is a panic. On the tree read in order, the new tag lands behind every tag it
  passed on the right.
\<close>

fun insert_btag :: "btag list \<Rightarrow> btag \<Rightarrow> error + btag list" where
  "insert_btag [] bt = Inr [bt]"
| "insert_btag (node # rest) bt =
     (if bt_start bt < bt_start node then Inr (bt # node # rest)
      else if bt_start node < bt_start bt \<or> bt_status node = BTAG_SPAN then
        (case insert_btag rest bt of Inl e \<Rightarrow> Inl e | Inr t \<Rightarrow> Inr (node # t))
      else Inl Panic_btag_in_tree)"

text \<open>A store through a pointer to a tag that is in the tree: the first such tag.\<close>

fun tree_set :: "btag list \<Rightarrow> btag \<Rightarrow> btag \<Rightarrow> btag list" where
  "tree_set [] old new = []"
| "tree_set (node # rest) old new =
     (if node = old then new # rest else node # tree_set rest old new)"

text \<open>\<open>rb_next\<close> and \<open>rb_prev\<close> of a tag of the tree.\<close>

fun rb_next :: "btag list \<Rightarrow> btag \<Rightarrow> btag option" where
  "rb_next [] bt = None"
| "rb_next [node] bt = None"
| "rb_next (node # nxt # rest) bt =
     (if node = bt then Some nxt else rb_next (nxt # rest) bt)"

fun rb_prev :: "btag list \<Rightarrow> btag \<Rightarrow> btag option" where
  "rb_prev [] bt = None"
| "rb_prev [node] bt = None"
| "rb_prev (prv # node # rest) bt =
     (if prv = bt then None
      else if node = bt then Some prv else rb_prev (node # rest) bt)"

definition rb_erase :: "btag list \<Rightarrow> btag \<Rightarrow> btag list" where
  "rb_erase t bt = remove1 bt t"

section \<open>Boundary-tag pool and the segment lists\<close>

text \<open>\<open>__has_enough_btags\<close> counts the unused list up to \<open>nr_needed\<close>.\<close>

definition has_enough_btags :: "arena \<Rightarrow> nat \<Rightarrow> bool" where
  "has_enough_btags a nr_needed = (0 < nr_needed \<and> nr_needed \<le> unused_btags a)"

text \<open>\<open>__get_btag\<close>: \<open>assert(ret)\<close> on an empty unused list.\<close>

definition get_btag :: "arena \<Rightarrow> error + arena" where
  "get_btag a =
     (if unused_btags a = 0 then Inl Panic_assert
      else Inr (a\<lparr>unused_btags := unused_btags a - 1\<rparr>))"

definition free_btag :: "arena \<Rightarrow> arena" where
  "free_btag a = a\<lparr>unused_btags := Suc (unused_btags a)\<rparr>"

text \<open>
  \<open>__track_free_seg\<close> sets the status and pushes the tag on the list of its size.
  The caller stores the same status in the tree where the tag is in it.
\<close>

definition track_free_seg :: "arena \<Rightarrow> btag \<Rightarrow> arena" where
  "track_free_seg a bt =
     (let list_idx = LOG2_DOWN (bt_size bt)
      in a\<lparr>free_segs := (free_segs a)
             [list_idx := bt\<lparr>bt_status := BTAG_FREE\<rparr> # free_segs a ! list_idx]\<rparr>)"

text \<open>
  \<open>__untrack_free_seg\<close> is \<open>BSD_LIST_REMOVE\<close>: it unlinks the tag from the list
  it is on, which for a FREE tag is the list of its size.
\<close>

definition untrack_free_seg :: "arena \<Rightarrow> btag \<Rightarrow> arena" where
  "untrack_free_seg a bt =
     (let list_idx = LOG2_DOWN (bt_size bt)
      in a\<lparr>free_segs := (free_segs a)
             [list_idx := remove1 bt (free_segs a ! list_idx)]\<rparr>)"

definition track_alloc_seg :: "arena \<Rightarrow> btag \<Rightarrow> arena" where
  "track_alloc_seg a bt =
     (let h = hash_idx (bt_start bt)
      in a\<lparr>alloc_hash := (alloc_hash a)
             [h := bt\<lparr>bt_status := BTAG_ALLOC\<rparr> # alloc_hash a ! h]\<rparr>)"

text \<open>
  \<open>__untrack_alloc_seg\<close>: the first tag of the chain with this start is unlinked;
  \<open>assert(bt_i->status == BTAG_ALLOC)\<close>; NULL when the chain has none.
\<close>

definition untrack_alloc_seg :: "arena \<Rightarrow> addr \<Rightarrow> error + (arena \<times> btag option)" where
  "untrack_alloc_seg a s =
     (let h = hash_idx s
      in case find (\<lambda>bt_i. bt_start bt_i = s) (alloc_hash a ! h) of
           None \<Rightarrow> Inr (a, None)
         | Some bt_i \<Rightarrow>
             if bt_status bt_i \<noteq> BTAG_ALLOC then Inl Panic_assert
             else Inr (a\<lparr>alloc_hash := (alloc_hash a)
                           [h := remove1 bt_i (alloc_hash a ! h)]\<rparr>, Some bt_i))"

text \<open>
  \<open>__account_alloc\<close>: \<open>bt\<close> is off its free list; \<open>have_new\<close> says that the
  caller passed a tag \<open>new\<close>. The result is the arena, the tag as it now is, and
  whether the caller's tag was used.
\<close>

definition account_alloc ::
  "arena \<Rightarrow> btag \<Rightarrow> addr \<Rightarrow> bool \<Rightarrow> error + (arena \<times> btag \<times> bool)" where
  "account_alloc a bt sz have_new =
     (if bt_status bt \<noteq> BTAG_FREE then Inl Panic_assert
      else
        case (if bt_size bt \<noteq> sz then
                (if \<not> sz < bt_size bt then Inl Panic_assert
                 else
                   case (if have_new then Inr a else get_btag a) of
                     Inl e \<Rightarrow> Inl e
                   | Inr a1 \<Rightarrow>
                       let new = \<lparr>bt_start = bt_start bt + sz,
                                  bt_size = bt_size bt - sz,
                                  bt_status = BTAG_FREE\<rparr>;
                           bt1 = bt\<lparr>bt_size := sz\<rparr>;
                           a2 = track_free_seg
                                  (a1\<lparr>all_segs := tree_set (all_segs a1) bt bt1\<rparr>) new
                       in case insert_btag (all_segs a2) new of
                            Inl e \<Rightarrow> Inl e
                          | Inr t \<Rightarrow> Inr (a2\<lparr>all_segs := t\<rparr>, bt1, have_new))
              else Inr (a, bt, False)) of
          Inl e \<Rightarrow> Inl e
        | Inr (a3, bt3, ret) \<Rightarrow>
            let bt4 = bt3\<lparr>bt_status := BTAG_ALLOC\<rparr>;
                a4 = track_alloc_seg
                       (a3\<lparr>all_segs := tree_set (all_segs a3) bt3 bt4\<rparr>) bt4
            in Inr (a4\<lparr>amt_alloc_segs := amt_alloc_segs a4 + sz,
                       nr_allocs := nr_allocs a4 + 1\<rparr>, bt4, ret))"

text \<open>\<open>__get_from_freelists\<close>: the head of the first populated list from \<open>list_idx\<close>.\<close>

fun first_populated :: "btag list list \<Rightarrow> nat list \<Rightarrow> (nat \<times> btag) option" where
  "first_populated fs [] = None"
| "first_populated fs (i # is) =
     (case fs ! i of [] \<Rightarrow> first_populated fs is | ret # _ \<Rightarrow> Some (i, ret))"

definition get_from_freelists :: "arena \<Rightarrow> nat \<Rightarrow> arena \<times> btag option" where
  "get_from_freelists a list_idx =
     (case first_populated (free_segs a) [list_idx..<ARENA_NR_FREE_LISTS] of
        None \<Rightarrow> (a, None)
      | Some (i, ret) \<Rightarrow>
          (a\<lparr>free_segs := (free_segs a)[i := tl (free_segs a ! i)]\<rparr>, Some ret))"

section \<open>Constrained search\<close>

text \<open>\<open>__find_sufficient\<close>: 0 is the failure value.\<close>

function find_sufficient ::
  "addr \<Rightarrow> addr \<Rightarrow> addr \<Rightarrow> addr \<Rightarrow> addr \<Rightarrow> addr \<Rightarrow> addr" where
  "find_sufficient start bsize sz align phase nocross =
     (let try = ROUNDUP start align + phase
      in if try < start then 0
         else if try + sz < try then 0
         else if try + sz > start + bsize then 0
         else if nocross = 0 then try
         else if ROUNDUP try nocross \<ge> try + sz then try
         else
           let try2 = ROUNDUP start nocross;
               try_size = bsize - (try2 - start)
           in if try_size > bsize then 0
              else if try2 + try_size < try2 then 0
              else find_sufficient try2 try_size sz align phase 0)"
  by pat_completeness auto
termination
  by (relation "measure (\<lambda>(s, b, z, al, ph, nc). if nc = 0 then 0 else 1)") auto

declare find_sufficient.simps [simp del]

text \<open>
  \<open>__split_bt_at\<close>: the tag keeps its place in the tree and the new front tag is
  inserted before it. The result is the arena and the tag as it now is.
\<close>

definition split_bt_at :: "arena \<Rightarrow> btag \<Rightarrow> addr \<Rightarrow> error + (arena \<times> btag)" where
  "split_bt_at a bt at =
     (case get_btag a of
        Inl e \<Rightarrow> Inl e
      | Inr a1 \<Rightarrow>
          let front = \<lparr>bt_start = bt_start bt, bt_size = at - bt_start bt,
                       bt_status = BTAG_FREE\<rparr>;
              bt1 = bt\<lparr>bt_start := bt_start bt + bt_size front,
                      bt_size := bt_size bt - bt_size front\<rparr>;
              a2 = track_free_seg
                     (a1\<lparr>all_segs := tree_set (all_segs a1) bt bt1\<rparr>) front
          in case insert_btag (all_segs a2) front of
               Inl e \<Rightarrow> Inl e
             | Inr t \<Rightarrow> Inr (a2\<lparr>all_segs := t\<rparr>, bt1))"

text \<open>
  The descent of \<open>__xalloc_min_max\<close> stops at a tag that
  \<open>__found_least_upper_btag\<close> accepts: one whose start is at least \<open>minaddr\<close>
  and that is the first of the tree or follows a tag that starts below \<open>minaddr\<close>.
  In a tree ordered by start at most one tag is like that, and the descent (left when
  \<open>minaddr < bt->start\<close>, right otherwise) reaches it whenever no two tags start at
  \<open>minaddr\<close>; \<open>least_upper\<close> is the tree from that tag on, which the \<open>for\<close>
  loop then walks with \<open>rb_next\<close>.
\<close>

fun least_upper :: "btag option \<Rightarrow> btag list \<Rightarrow> addr \<Rightarrow> btag list" where
  "least_upper prev [] minaddr = []"
| "least_upper prev (bt # rest) minaddr =
     (if \<not> bt_start bt < minaddr \<and>
         (case prev of None \<Rightarrow> True | Some p \<Rightarrow> bt_start p < minaddr)
      then bt # rest
      else least_upper (Some bt) rest minaddr)"

text \<open>The \<open>for\<close> loop up to the choice of a tag: \<open>None\<close> is \<open>return NULL\<close>.\<close>

fun min_max_scan ::
  "btag list \<Rightarrow> addr \<Rightarrow> addr \<Rightarrow> addr \<Rightarrow> addr \<Rightarrow> addr \<Rightarrow> (btag \<times> addr) option" where
  "min_max_scan [] sz align phase nocross maxaddr = None"
| "min_max_scan (bt # rest) sz align phase nocross maxaddr =
     (let try = find_sufficient (bt_start bt) (bt_size bt) sz align phase nocross
      in if try = 0 then min_max_scan rest sz align phase nocross maxaddr
         else if maxaddr \<noteq> 0 \<and> try + sz > maxaddr then None
         else Some (bt, try))"

text \<open>
  \<open>__xalloc_min_max\<close>. The loop tests every tag of the tree, whatever its status;
  for a tag that is not FREE the assertion of \<open>__account_alloc\<close> fails.
\<close>

definition xalloc_min_max ::
  "arena \<Rightarrow> addr \<Rightarrow> addr \<Rightarrow> addr \<Rightarrow> addr \<Rightarrow> addr \<Rightarrow> addr \<Rightarrow> error + (arena \<times> addr)" where
  "xalloc_min_max a sz align phase nocross minaddr maxaddr =
     (case min_max_scan (least_upper None (all_segs a) minaddr)
             sz align phase nocross maxaddr of
        None \<Rightarrow> Inr (a, 0)
      | Some (bt, try) \<Rightarrow>
          let a1 = untrack_free_seg a bt
          in case (if try \<noteq> bt_start bt then split_bt_at a1 bt try
                   else Inr (a1, bt)) of
               Inl e \<Rightarrow> Inl e
             | Inr (a2, bt2) \<Rightarrow>
                 (case account_alloc a2 bt2 sz False of
                    Inl e \<Rightarrow> Inl e
                  | Inr (a3, bt3, ret) \<Rightarrow> Inr (a3, bt_start bt3)))"

text \<open>The two nested loops of \<open>__xalloc_from_freelists\<close>.\<close>

fun freelists_scan ::
  "btag list list \<Rightarrow> nat list \<Rightarrow> addr \<Rightarrow> addr \<Rightarrow> addr \<Rightarrow> addr \<Rightarrow> (nat \<times> btag \<times> addr) option"
  where
  "freelists_scan fs [] sz align phase nocross = None"
| "freelists_scan fs (i # is) sz align phase nocross =
     (case find (\<lambda>bt_i. find_sufficient (bt_start bt_i) (bt_size bt_i)
                          sz align phase nocross \<noteq> 0) (fs ! i) of
        None \<Rightarrow> freelists_scan fs is sz align phase nocross
      | Some bt_i \<Rightarrow>
          Some (i, bt_i, find_sufficient (bt_start bt_i) (bt_size bt_i)
                           sz align phase nocross))"

definition xalloc_from_freelists ::
  "arena \<Rightarrow> addr \<Rightarrow> addr \<Rightarrow> addr \<Rightarrow> addr \<Rightarrow> bool \<Rightarrow> error + (arena \<times> addr)" where
  "xalloc_from_freelists a sz align phase nocross try_instant_fit =
     (if ROUNDUP sz align + phase < sz then Inr (a, 0)
      else
        let list_idx = LOG2_DOWN (ROUNDUP sz align + phase)
                       + (if try_instant_fit then 1 else 0)
        in case freelists_scan (free_segs a) [list_idx..<ARENA_NR_FREE_LISTS]
                  sz align phase nocross of
             None \<Rightarrow> Inr (a, 0)
           | Some (i, bt_i, try) \<Rightarrow>
               let a1 = a\<lparr>free_segs := (free_segs a)
                            [i := remove1 bt_i (free_segs a ! i)]\<rparr>
               in case (if try \<noteq> bt_start bt_i then split_bt_at a1 bt_i try
                        else Inr (a1, bt_i)) of
                    Inl e \<Rightarrow> Inl e
                  | Inr (a2, bt2) \<Rightarrow>
                      (case account_alloc a2 bt2 sz False of
                         Inl e \<Rightarrow> Inl e
                       | Inr (a3, bt3, ret) \<Rightarrow> Inr (a3, bt_start bt3)))"

definition xalloc_nextfit ::
  "arena \<Rightarrow> addr \<Rightarrow> addr \<Rightarrow> addr \<Rightarrow> addr \<Rightarrow> error + (arena \<times> addr)" where
  "xalloc_nextfit a sz align phase nocross =
     (case xalloc_min_max a sz align phase nocross
             (last_nextfit_alloc a + quantum a) 0 of
        Inl e \<Rightarrow> Inl e
      | Inr (a1, ret1) \<Rightarrow>
          (case (if ret1 = 0
                 then xalloc_min_max a1 sz align phase nocross (quantum a1) 0
                 else Inr (a1, ret1)) of
             Inl e \<Rightarrow> Inl e
           | Inr (a2, ret) \<Rightarrow>
               if ret = 0 then Inr (a2, 0)
               else Inr (a2\<lparr>last_nextfit_alloc := ret\<rparr>, ret)))"

section \<open>Growing the boundary-tag pool\<close>

text \<open>
  \<open>__add_more_btags\<close>. A page holds \<open>PGSIZE / sizeof(struct btag)\<close> tags, 64 of
  64 bytes. The base arena takes the page from its own free lists and accounts for it
  with the first tag of that page (\<open>&tags[0]\<close>, which \<open>__account_alloc\<close> takes
  for absent when the page is at address 0). Another arena asks the base arena:
  the argument \<open>bt_page\<close> is what \<open>arena_alloc(find_my_base(arena), PGSIZE, ...)\<close> returned.
  The result is the arena and the pointer \<open>tags\<close>, 0 on failure.
\<close>

definition add_more_btags :: "arena \<Rightarrow> flags \<Rightarrow> addr \<Rightarrow> error + (arena \<times> addr)" where
  "add_more_btags a mem_flags bt_page =
     (if is_base a then
        (case get_from_freelists a (LOG2_UP PGSIZE) of
           (a1, None) \<Rightarrow>
             if mem_flags AND MEM_ATOMIC = 0 then Inl Panic_OOM else Inr (a1, 0)
         | (a1, Some bt) \<Rightarrow>
             (case account_alloc a1 bt PGSIZE (bt_start bt \<noteq> 0) of
                Inl e \<Rightarrow> Inl e
              | Inr (a2, bt2, used) \<Rightarrow>
                  if used
                  then Inr (a2\<lparr>unused_btags := unused_btags a2 + 63\<rparr>, bt_start bt + 64)
                  else Inr (a2\<lparr>unused_btags := unused_btags a2 + 64\<rparr>, bt_start bt)))
      else if bt_page = 0 then Inr (a, 0)
      else Inr (a\<lparr>unused_btags := unused_btags a + 64\<rparr>, bt_page))"

definition get_enough_btags ::
  "arena \<Rightarrow> nat \<Rightarrow> flags \<Rightarrow> addr \<Rightarrow> error + (arena \<times> bool)" where
  "get_enough_btags a nr_needed mem_flags bt_page =
     (if has_enough_btags a nr_needed then Inr (a, True)
      else
        case add_more_btags a mem_flags bt_page of
          Inl e \<Rightarrow> Inl e
        | Inr (a1, tags) \<Rightarrow>
            if tags = 0 then
              (if mem_flags AND MEM_ATOMIC = 0 then Inl Panic_assert
               else Inr (a1, False))
            else if \<not> has_enough_btags a1 nr_needed then Inl Panic_assert
            else Inr (a1, True))"

section \<open>Allocation policies\<close>

text \<open>The scan of \<open>__alloc_bestfit\<close> over the list of \<open>LOG2_DOWN(size)\<close>.\<close>

fun bestfit_scan :: "btag list \<Rightarrow> addr \<Rightarrow> btag option \<Rightarrow> btag option" where
  "bestfit_scan [] sz best = best"
| "bestfit_scan (bt_i # rest) sz best =
     bestfit_scan rest sz
       (if bt_size bt_i \<ge> sz \<and>
           (case best of None \<Rightarrow> True | Some b \<Rightarrow> bt_size b > bt_size bt_i)
        then Some bt_i else best)"

text \<open>
  \<open>__alloc_bestfit\<close>. A tag from \<open>__get_from_freelists\<close> has been unlinked from
  its free list; a tag that the scan chose has not, and \<open>__account_alloc\<close> takes it
  as it is. \<open>BSD_LIST_INSERT_HEAD\<close> of \<open>__track_alloc_seg\<close> then writes the
  \<open>misc_link\<close> of the tag: the tag heads its hash chain and its \<open>le_next\<close> is the
  old head of the chain, while the link before it on the free list still leads to it. Read
  from its head, the free list is then the tags before the chosen one, the chosen tag as
  it now is (ALLOC, of the requested size), and the hash chain behind it; the tags that
  followed it on the free list are no longer reached. The lists of an arena are what a
  walk from each head reads, so this is the value of the free list after the call. The
  two lists share that link from then on, and the model keeps the two walks as separate
  lists.
\<close>

definition alloc_bestfit :: "arena \<Rightarrow> addr \<Rightarrow> error + (arena \<times> addr)" where
  "alloc_bestfit a sz =
     (let list_idx = LOG2_DOWN sz
      in case bestfit_scan (free_segs a ! list_idx) sz None of
           Some best \<Rightarrow>
             (case account_alloc a best sz False of
                Inl e \<Rightarrow> Inl e
              | Inr (a2, bt2, ret) \<Rightarrow>
                  Inr (a2\<lparr>free_segs := (free_segs a2)
                          [list_idx := takeWhile (\<lambda>bt_i. bt_i \<noteq> best)
                                         (free_segs a2 ! list_idx)
                                       @ alloc_hash a2 ! hash_idx (bt_start bt2)]\<rparr>,
                       bt_start bt2))
         | None \<Rightarrow>
             (case get_from_freelists a (list_idx + 1) of
                (a1, None) \<Rightarrow> Inr (a1, 0)
              | (a1, Some best) \<Rightarrow>
                  (case account_alloc a1 best sz False of
                     Inl e \<Rightarrow> Inl e
                   | Inr (a2, bt2, ret) \<Rightarrow> Inr (a2, bt_start bt2))))"

definition alloc_nextfit :: "arena \<Rightarrow> addr \<Rightarrow> error + (arena \<times> addr)" where
  "alloc_nextfit a sz = xalloc_nextfit a sz (quantum a) 0 0"

definition alloc_instantfit :: "arena \<Rightarrow> addr \<Rightarrow> error + (arena \<times> addr)" where
  "alloc_instantfit a sz =
     (case get_from_freelists a (LOG2_UP sz) of
        (a1, None) \<Rightarrow> Inr (a1, 0)
      | (a1, Some bt) \<Rightarrow>
          (case account_alloc a1 bt sz False of
             Inl e \<Rightarrow> Inl e
           | Inr (a2, bt2, ret) \<Rightarrow> Inr (a2, bt_start bt2)))"

definition alloc_from_arena ::
  "arena \<Rightarrow> addr \<Rightarrow> flags \<Rightarrow> addr \<Rightarrow> error + (arena \<times> addr)" where
  "alloc_from_arena a sz fl bt_page =
     (case get_enough_btags a 1 (fl AND MEM_FLAGS) bt_page of
        Inl e \<Rightarrow> Inl e
      | Inr (a1, enough) \<Rightarrow>
          if \<not> enough then Inr (a1, 0)
          else if fl AND ARENA_BESTFIT \<noteq> 0 then alloc_bestfit a1 sz
          else if fl AND ARENA_NEXTFIT \<noteq> 0 then alloc_nextfit a1 sz
          else alloc_instantfit a1 sz)"

section \<open>Adding and importing spans\<close>

text \<open>
  \<open>__arena_add\<close>, with the two panics of \<open>assert_quantum_alignment\<close> and
  \<open>assert(base < base + size)\<close>. The result is the arena and the returned pointer.
\<close>

definition arena_add_locked ::
  "arena \<Rightarrow> addr \<Rightarrow> addr \<Rightarrow> flags \<Rightarrow> addr \<Rightarrow> error + (arena \<times> addr)" where
  "arena_add_locked a base sz fl bt_page =
     (if \<not> ALIGNED base (quantum a) \<or> \<not> ALIGNED sz (quantum a) then Inl Panic_bad_argument
      else if \<not> base < base + sz then Inl Panic_assert
      else
        case get_enough_btags a 2 (fl AND MEM_FLAGS) bt_page of
          Inl e \<Rightarrow> Inl e
        | Inr (a1, enough) \<Rightarrow>
            if \<not> enough then Inr (a1, 0)
            else
              case get_btag a1 of
                Inl e \<Rightarrow> Inl e
              | Inr a2 \<Rightarrow>
                  (case (if has_source a2 then
                           (case get_btag a2 of
                              Inl e \<Rightarrow> Inl e
                            | Inr a3 \<Rightarrow>
                                (case insert_btag (all_segs a3)
                                        \<lparr>bt_start = base, bt_size = sz,
                                         bt_status = BTAG_SPAN\<rparr> of
                                   Inl e \<Rightarrow> Inl e
                                 | Inr t \<Rightarrow> Inr (a3\<lparr>all_segs := t\<rparr>)))
                         else Inr a2) of
                     Inl e \<Rightarrow> Inl e
                   | Inr a4 \<Rightarrow>
                       let bt = \<lparr>bt_start = base, bt_size = sz, bt_status = BTAG_FREE\<rparr>;
                           a5 = track_free_seg
                                  (a4\<lparr>amt_total_segs := amt_total_segs a4 + sz\<rparr>) bt
                       in case insert_btag (all_segs a5) bt of
                            Inl e \<Rightarrow> Inl e
                          | Inr t \<Rightarrow> Inr (a5\<lparr>all_segs := t\<rparr>, base)))"

definition arena_add ::
  "arena \<Rightarrow> addr \<Rightarrow> addr \<Rightarrow> flags \<Rightarrow> addr \<Rightarrow> error + (arena \<times> addr)" where
  "arena_add a base sz fl bt_page =
     (if has_source a then Inl Panic_has_source
      else arena_add_locked a base sz fl bt_page)"

text \<open>
  What the environment answers during one round of the loop of \<open>arena_alloc\<close> or
  \<open>arena_xalloc\<close>: the base arena, when the allocation attempt asks for a page of
  tags; the source's \<open>afunc\<close>; the base arena again, when \<open>__arena_add\<close> asks.
  0 is NULL.
\<close>

record env_step =
  ev_bt_page :: addr
  ev_span :: addr
  ev_add_page :: addr

text \<open>
  \<open>get_more_resources\<close>. The last component lists the calls of the source's
  \<open>ffunc\<close> as (address, size).
\<close>

definition get_more_resources ::
  "arena \<Rightarrow> addr \<Rightarrow> flags \<Rightarrow> env_step \<Rightarrow> error + (arena \<times> bool \<times> (addr \<times> addr) list)" where
  "get_more_resources a sz fl ev =
     (let import_size = max sz (push_bit (import_scale a) sz)
      in if has_source a then
           (if ev_span ev = 0 then Inr (a, False, [])
            else
              case arena_add_locked a (ev_span ev) import_size fl (ev_add_page ev) of
                Inl e \<Rightarrow> Inl e
              | Inr (a1, ret) \<Rightarrow>
                  if ret = 0 then Inr (a1, False, [(ev_span ev, import_size)])
                  else Inr (a1, True, []))
         else if fl AND MEM_ATOMIC = 0 then Inl Panic_OOM
         else Inr (a, False, []))"

section \<open>The public allocation functions\<close>

text \<open>
  The \<open>while (1)\<close> loop of \<open>arena_alloc\<close> runs one round for each answer of the
  environment; \<open>None\<close> says that the answers ran out before the loop returned.
  A round that goes on made no call of \<open>ffunc\<close>.
\<close>

fun arena_alloc_loop ::
  "arena \<Rightarrow> addr \<Rightarrow> flags \<Rightarrow> env_step list \<Rightarrow>
   (error + (arena \<times> addr \<times> (addr \<times> addr) list)) option" where
  "arena_alloc_loop a sz fl [] = None"
| "arena_alloc_loop a sz fl (ev # evs) =
     (case alloc_from_arena a sz fl (ev_bt_page ev) of
        Inl e \<Rightarrow> Some (Inl e)
      | Inr (a1, ret) \<Rightarrow>
          if ret \<noteq> 0 then Some (Inr (a1, ret, []))
          else
            case get_more_resources a1 sz fl ev of
              Inl e \<Rightarrow> Some (Inl e)
            | Inr (a2, got, calls) \<Rightarrow>
                if \<not> got then Some (Inr (a2, 0, calls))
                else arena_alloc_loop a2 sz fl evs)"

definition arena_alloc ::
  "arena \<Rightarrow> addr \<Rightarrow> flags \<Rightarrow> env_step list \<Rightarrow>
   (error + (arena \<times> addr \<times> (addr \<times> addr) list)) option" where
  "arena_alloc a sz fl evs =
     (let sz1 = ROUNDUP sz (quantum a)
      in if sz1 = 0 then Some (Inl Panic_zero_request)
         else arena_alloc_loop a sz1 fl evs)"

definition xalloc_from_arena ::
  "arena \<Rightarrow> addr \<Rightarrow> addr \<Rightarrow> addr \<Rightarrow> addr \<Rightarrow> addr \<Rightarrow> addr \<Rightarrow> flags \<Rightarrow> addr \<Rightarrow>
   error + (arena \<times> addr)" where
  "xalloc_from_arena a sz align phase nocross minaddr maxaddr fl bt_page =
     (case get_enough_btags a 2 (fl AND MEM_FLAGS) bt_page of
        Inl e \<Rightarrow> Inl e
      | Inr (a1, enough) \<Rightarrow>
          if \<not> enough then Inr (a1, 0)
          else if minaddr \<noteq> 0 \<or> maxaddr \<noteq> 0
          then xalloc_min_max a1 sz align phase nocross minaddr maxaddr
          else if fl AND ARENA_BESTFIT \<noteq> 0
          then xalloc_from_freelists a1 sz align phase nocross False
          else if fl AND ARENA_NEXTFIT \<noteq> 0
          then xalloc_nextfit a1 sz align phase nocross
          else xalloc_from_freelists a1 sz align phase nocross True)"

fun arena_xalloc_loop ::
  "arena \<Rightarrow> addr \<Rightarrow> addr \<Rightarrow> addr \<Rightarrow> addr \<Rightarrow> addr \<Rightarrow> addr \<Rightarrow> flags \<Rightarrow> env_step list \<Rightarrow>
   (error + (arena \<times> addr \<times> (addr \<times> addr) list)) option" where
  "arena_xalloc_loop a sz align phase nocross minaddr maxaddr fl [] = None"
| "arena_xalloc_loop a sz align phase nocross minaddr maxaddr fl (ev # evs) =
     (case xalloc_from_arena a sz align phase nocross minaddr maxaddr fl (ev_bt_page ev) of
        Inl e \<Rightarrow> Some (Inl e)
      | Inr (a1, ret) \<Rightarrow>
          if ret \<noteq> 0 then Some (Inr (a1, ret, []))
          else
            let req_size = sz + align + phase
            in if req_size < sz then Some (Inl Panic_overflow)
               else
                 case get_more_resources a1 req_size fl ev of
                   Inl e \<Rightarrow> Some (Inl e)
                 | Inr (a2, got, calls) \<Rightarrow>
                     if \<not> got then Some (Inr (a2, 0, calls))
                     else arena_xalloc_loop a2 sz align phase nocross minaddr maxaddr
                            ((fl AND NOT ARENA_ALLOC_STYLES) OR ARENA_BESTFIT) evs)"

definition arena_xalloc ::
  "arena \<Rightarrow> addr \<Rightarrow> addr \<Rightarrow> addr \<Rightarrow> addr \<Rightarrow> addr \<Rightarrow> addr \<Rightarrow> flags \<Rightarrow> env_step list \<Rightarrow>
   (error + (arena \<times> addr \<times> (addr \<times> addr) list)) option" where
  "arena_xalloc a sz align phase nocross minaddr maxaddr fl evs =
     (let sz1 = ROUNDUP sz (quantum a)
      in if sz1 = 0 then Some (Inl Panic_zero_request)
         else if \<not> IS_PWR2 align then Some (Inl Panic_bad_argument)
         else if nocross \<noteq> 0 \<and> \<not> IS_PWR2 nocross then Some (Inl Panic_bad_argument)
         else if \<not> ALIGNED align (quantum a) then Some (Inl Panic_bad_argument)
         else if \<not> ALIGNED nocross (quantum a) then Some (Inl Panic_bad_argument)
         else if \<not> ALIGNED phase (quantum a) then Some (Inl Panic_bad_argument)
         else if sz1 + align < sz1 then Some (Inl Panic_overflow)
         else if sz1 + phase < sz1 then Some (Inl Panic_overflow)
         else if align + phase < align then Some (Inl Panic_overflow)
         else if has_source a \<and> (nocross \<noteq> 0 \<or> minaddr \<noteq> 0 \<or> maxaddr \<noteq> 0)
         then Some (Inl Panic_has_source)
         else arena_xalloc_loop a sz1 align phase nocross minaddr maxaddr fl evs)"

section \<open>Free and coalesce\<close>

text \<open>
  \<open>__merge_right_to_left\<close>: the result is the arena, whether the tags merged, and
  the left tag as it now is.
\<close>

definition merge_right_to_left :: "arena \<Rightarrow> btag \<Rightarrow> btag \<Rightarrow> arena \<times> bool \<times> btag" where
  "merge_right_to_left a left right =
     (if bt_status left \<noteq> BTAG_FREE then (a, False, left)
      else if bt_status right \<noteq> BTAG_FREE then (a, False, left)
      else if bt_start left + bt_size left = bt_start right then
        (let a1 = untrack_free_seg (untrack_free_seg a left) right;
             left1 = left\<lparr>bt_size := bt_size left + bt_size right\<rparr>;
             a2 = track_free_seg (a1\<lparr>all_segs := tree_set (all_segs a1) left left1\<rparr>) left1;
             a3 = free_btag (a2\<lparr>all_segs := rb_erase (all_segs a2) right\<rparr>)
         in (a3, True, left1))
      else (a, False, left))"

text \<open>
  \<open>__coalesce_free_seg\<close>: the result is the arena and \<open>(*to_free_addr,
  *to_free_sz)\<close>, which the caller initialised to \<open>(0, 0)\<close>.
\<close>

definition coalesce_free_seg :: "arena \<Rightarrow> btag \<Rightarrow> arena \<times> addr \<times> addr" where
  "coalesce_free_seg a bt =
     (let (a1, bt1) =
            (case rb_next (all_segs a) bt of
               None \<Rightarrow> (a, bt)
             | Some bt_n \<Rightarrow>
                 (case merge_right_to_left a bt bt_n of (a', m, bt') \<Rightarrow> (a', bt')));
          (a2, bt2) =
            (case rb_prev (all_segs a1) bt1 of
               None \<Rightarrow> (a1, bt1)
             | Some bt_p \<Rightarrow>
                 (case merge_right_to_left a1 bt_p bt1 of
                    (a', m, bt_p') \<Rightarrow> if m then (a', bt_p') else (a', bt1)))
      in case rb_prev (all_segs a2) bt2 of
           None \<Rightarrow> (a2, 0, 0)
         | Some bt_p \<Rightarrow>
             if bt_status bt_p = BTAG_SPAN \<and> bt_start bt_p = bt_start bt2
                \<and> bt_size bt_p = bt_size bt2
             then
               (let a3 = untrack_free_seg a2 bt2;
                    a4 = free_btag (a3\<lparr>all_segs := rb_erase (all_segs a3) bt_p\<rparr>);
                    a5 = free_btag (a4\<lparr>all_segs := rb_erase (all_segs a4) bt2\<rparr>)
                in (a5, bt_start bt_p, bt_size bt_p))
             else (a2, 0, 0))"

text \<open>
  \<open>free_from_arena\<close>: the second component lists the calls of the source's
  \<open>ffunc\<close> as (address, size).
\<close>

definition free_from_arena ::
  "arena \<Rightarrow> addr \<Rightarrow> addr \<Rightarrow> error + (arena \<times> (addr \<times> addr) list)" where
  "free_from_arena a ad sz =
     (case untrack_alloc_seg a ad of
        Inl e \<Rightarrow> Inl e
      | Inr (a1, None) \<Rightarrow> Inl Panic_unallocated
      | Inr (a1, Some bt) \<Rightarrow>
          if bt_size bt \<noteq> sz then Inl Panic_wrong_size
          else
            let a2 = a1\<lparr>amt_alloc_segs := amt_alloc_segs a1 - sz,
                        nr_allocs := nr_allocs a1 - 1\<rparr>;
                bt1 = bt\<lparr>bt_status := BTAG_FREE\<rparr>;
                a3 = track_free_seg (a2\<lparr>all_segs := tree_set (all_segs a2) bt bt1\<rparr>) bt1
            in case coalesce_free_seg a3 bt1 of
                 (a4, to_free_addr, to_free_sz) \<Rightarrow>
                   Inr (a4\<lparr>amt_total_segs := amt_total_segs a4 - to_free_sz\<rparr>,
                        if to_free_addr \<noteq> 0 then [(to_free_addr, to_free_sz)] else []))"

definition arena_free ::
  "arena \<Rightarrow> addr \<Rightarrow> addr \<Rightarrow> error + (arena \<times> (addr \<times> addr) list)" where
  "arena_free a ad sz = free_from_arena a ad (ROUNDUP sz (quantum a))"

definition arena_xfree ::
  "arena \<Rightarrow> addr \<Rightarrow> addr \<Rightarrow> error + (arena \<times> (addr \<times> addr) list)" where
  "arena_xfree a ad sz = free_from_arena a ad (ROUNDUP sz (quantum a))"

text \<open>
  \<open>arena_init\<close> leaves \<open>last_nextfit_alloc\<close> as the memory had it: \<open>nf\<close>.
  \<open>arena_create\<close> makes an arena that is not a base; \<open>arena_builder\<close> makes one
  with two tags and, without a source, a base.
\<close>

definition arena_init :: "addr \<Rightarrow> bool \<Rightarrow> addr \<Rightarrow> arena" where
  "arena_init q src nf =
     \<lparr>import_scale = 0, is_base = False, quantum = q, has_source = src,
      all_segs = [], unused_btags = 0,
      free_segs = replicate ARENA_NR_FREE_LISTS [],
      alloc_hash = replicate ARENA_NR_HASH_LISTS [],
      amt_total_segs = 0, amt_alloc_segs = 0, nr_allocs = 0,
      last_nextfit_alloc = nf\<rparr>"

definition arena_builder :: "addr \<Rightarrow> bool \<Rightarrow> addr \<Rightarrow> arena" where
  "arena_builder q src nf =
     (arena_init q src nf)\<lparr>is_base := \<not> src, unused_btags := 2\<rparr>"

section \<open>Arenas of the scenarios\<close>

text \<open>
  The arena that \<open>arena_create\<close> (no source, no initial span) and one
  \<open>arena_add\<close> of \<open>[base, base + sz)\<close> leave behind: one FREE tag on the list of
  its size, and 63 of the 64 tags of a first page of tags still unused.
\<close>

definition seg_arena :: "addr \<Rightarrow> addr \<Rightarrow> addr \<Rightarrow> addr \<Rightarrow> arena" where
  "seg_arena q base sz nf =
     \<lparr>import_scale = 0, is_base = False, quantum = q, has_source = False,
      all_segs = [\<lparr>bt_start = base, bt_size = sz, bt_status = BTAG_FREE\<rparr>],
      unused_btags = 63,
      free_segs = (replicate ARENA_NR_FREE_LISTS [])
         [LOG2_DOWN sz := [\<lparr>bt_start = base, bt_size = sz, bt_status = BTAG_FREE\<rparr>]],
      alloc_hash = replicate ARENA_NR_HASH_LISTS [],
      amt_total_segs = sz, amt_alloc_segs = 0, nr_allocs = 0,
      last_nextfit_alloc = nf\<rparr>"

text \<open>An environment that has nothing to give: every answer is NULL.\<close>

definition no_env :: env_step where
  "no_env = \<lparr>ev_bt_page = 0, ev_span = 0, ev_add_page = 0\<rparr>"

text \<open>
  What a caller of \<open>arena_alloc\<close> or \<open>arena_xalloc\<close> sees: the address when the
  call returned one, \<open>None\<close> when it returned NULL, panicked or did not return.
\<close>

definition returned ::
  "(error + (arena \<times> addr \<times> (addr \<times> addr) list)) option \<Rightarrow> addr option" where
  "returned r =
     (case r of
        Some (Inr (a, p, calls)) \<Rightarrow> if p = 0 then None else Some p
      | _ \<Rightarrow> None)"

text \<open>
  The arena with quantum 0x100 and the one span \<open>[0x1000, 0x2000)\<close>, after
  \<open>arena_alloc\<close> of 0x80 bytes with the default flags: the request is rounded up to
  the quantum, so the tag of the allocation has size 0x100.
\<close>

definition one_alloc_arena :: arena where
  "one_alloc_arena =
     \<lparr>import_scale = 0, is_base = False, quantum = 0x100, has_source = False,
      all_segs = [\<lparr>bt_start = 0x1000, bt_size = 0x100, bt_status = BTAG_ALLOC\<rparr>,
                  \<lparr>bt_start = 0x1100, bt_size = 0xF00, bt_status = BTAG_FREE\<rparr>],
      unused_btags = 62,
      free_segs = (replicate ARENA_NR_FREE_LISTS [])
         [11 := [\<lparr>bt_start = 0x1100, bt_size = 0xF00, bt_status = BTAG_FREE\<rparr>]],
      alloc_hash = (replicate ARENA_NR_HASH_LISTS [])
         [43 := [\<lparr>bt_start = 0x1000, bt_size = 0x100, bt_status = BTAG_ALLOC\<rparr>]],
      amt_total_segs = 0x1000, amt_alloc_segs = 0x100, nr_allocs = 1,
      last_nextfit_alloc = 0\<rparr>"

section \<open>The slab cache\<close>

text \<open>
  slab.h is not under src/: the fields of \<open>struct kmem_cache\<close>, \<open>struct kmem_slab\<close>
  and \<open>struct kmem_bufctl\<close> are those that the functions below use, and the constants
  \<open>SLAB_LARGE_CUTOFF\<close>, \<open>NUM_BUF_PER_SLAB\<close> and \<open>sizeof(struct kmem_slab)\<close>
  are parameters of the model.
\<close>

record slab_params =
  SLAB_LARGE_CUTOFF :: addr
  NUM_BUF_PER_SLAB :: addr
  sizeof_kmem_slab :: addr

text \<open>
  A slab. Of the union, a small slab uses \<open>free_small_obj\<close> and a large one
  \<open>bufctl_freelist\<close>, the list of its free bufctls by address, head first.
\<close>

record kmem_slab =
  slab_obj_size :: addr
  num_busy_obj :: addr
  num_total_obj :: addr
  free_small_obj :: addr
  bufctl_freelist :: "addr list"

record kmem_bufctl =
  buf_addr :: addr
  my_slab :: addr

text \<open>The three slab lists hold slabs by address, head first.\<close>

record kmem_cache =
  obj_size :: addr
  align :: addr
  full_slab_list :: "addr list"
  partial_slab_list :: "addr list"
  empty_slab_list :: "addr list"
  nr_cur_alloc :: addr

text \<open>
  A cache with the memory its functions read and write: the slab headers and the
  bufctls by address, and \<open>mem\<close>, the pointer-sized words that the cache keeps behind
  its objects. An address that holds none of these is a wild pointer for the model.
  Constructors and destructors act on the objects' own bytes, which the model does not
  hold.
\<close>

record slab_world =
  cache :: kmem_cache
  slabs :: "addr \<rightharpoonup> kmem_slab"
  bufctls :: "addr \<rightharpoonup> kmem_bufctl"
  mem :: "addr \<rightharpoonup> addr"

datatype slab_error = Slab_panic_OOM | Slab_ENOMEM | Wild_pointer

text \<open>
  What the environment answers to \<open>kmem_cache_grow\<close>: \<open>kpage_alloc\<close> (the page's
  address, 0 when it fails), \<open>kmem_cache_alloc(kmem_slab_cache)\<close>,
  \<open>get_cont_pages\<close>, and the successive \<open>kmem_cache_alloc(kmem_bufctl_cache)\<close>.
\<close>

record grow_env =
  ge_page :: addr
  ge_slab :: addr
  ge_buf :: addr
  ge_bufctls :: "addr list"

text \<open>\<open>__kmem_cache_create\<close>, without the registry of caches.\<close>

definition kmem_cache_create :: "addr \<Rightarrow> addr \<Rightarrow> slab_world" where
  "kmem_cache_create osz al =
     \<lparr>cache = \<lparr>obj_size = osz, align = al, full_slab_list = [], partial_slab_list = [],
               empty_slab_list = [], nr_cur_alloc = 0\<rparr>,
      slabs = Map.empty, bufctls = Map.empty, mem = Map.empty\<rparr>"

text \<open>
  The loop of the small-slab branch of \<open>kmem_cache_grow\<close>: object \<open>i\<close> points to
  object \<open>i + 1\<close>.
\<close>

fun thread_small :: "(addr \<rightharpoonup> addr) \<Rightarrow> addr \<Rightarrow> addr \<Rightarrow> addr \<Rightarrow> nat \<Rightarrow> (addr \<rightharpoonup> addr) \<times> addr" where
  "thread_small m buf osz slab_osz 0 = (m, buf)"
| "thread_small m buf osz slab_osz (Suc n) =
     thread_small (m(buf + osz \<mapsto> buf + slab_osz)) (buf + slab_osz) osz slab_osz n"

text \<open>
  The loop of the large-slab branch: one bufctl for each buffer, pushed on the slab's
  list, with the word behind the buffer pointing to it. \<open>None\<close> when the bufctl cache
  gave out.
\<close>

fun thread_large ::
  "slab_world \<Rightarrow> addr \<Rightarrow> addr \<Rightarrow> addr \<Rightarrow> addr \<Rightarrow> addr list \<Rightarrow> nat \<Rightarrow> slab_world option" where
  "thread_large w a_slab buf osz slab_osz bcs 0 = Some w"
| "thread_large w a_slab buf osz slab_osz [] (Suc n) = None"
| "thread_large w a_slab buf osz slab_osz (a_bufctl # bcs) (Suc n) =
     (case slabs w a_slab of
        None \<Rightarrow> None
      | Some sl \<Rightarrow>
          thread_large
            (w\<lparr>slabs := (slabs w)(a_slab \<mapsto>
                   sl\<lparr>bufctl_freelist := a_bufctl # bufctl_freelist sl\<rparr>),
               bufctls := (bufctls w)(a_bufctl \<mapsto> \<lparr>buf_addr = buf, my_slab = a_slab\<rparr>),
               mem := (mem w)(buf + osz \<mapsto> a_bufctl)\<rparr>)
            a_slab (buf + slab_osz) osz slab_osz bcs n)"

text \<open>\<open>kmem_cache_grow\<close>: the world and whether a slab was added.\<close>

definition kmem_cache_grow ::
  "slab_params \<Rightarrow> slab_world \<Rightarrow> grow_env \<Rightarrow> slab_error + (slab_world \<times> bool)" where
  "kmem_cache_grow ps w ge =
     (let cp = cache w
      in if obj_size cp \<le> SLAB_LARGE_CUTOFF ps then
           (if ge_page ge = 0 then Inr (w, False)
            else
              let a_slab = ge_page ge + PGSIZE - sizeof_kmem_slab ps;
                  sosz = ROUNDUP (obj_size cp + 8) (align cp);
                  total = (PGSIZE - sizeof_kmem_slab ps) div sosz;
                  (m1, buf) = thread_small (mem w) (ge_page ge) (obj_size cp) sosz
                                (unat (total - 1));
                  m2 = m1(buf + obj_size cp \<mapsto> 0);
                  sl = \<lparr>slab_obj_size = sosz, num_busy_obj = 0, num_total_obj = total,
                        free_small_obj = ge_page ge, bufctl_freelist = []\<rparr>
              in Inr (w\<lparr>cache := cp\<lparr>empty_slab_list := a_slab # empty_slab_list cp\<rparr>,
                        slabs := (slabs w)(a_slab \<mapsto> sl), mem := m2\<rparr>, True))
         else
           (if ge_slab ge = 0 then Inr (w, False)
            else
              let a_slab = ge_slab ge;
                  sosz = ROUNDUP (obj_size cp + 8) (align cp);
                  min_pgs = ROUNDUP (NUM_BUF_PER_SLAB ps * sosz) PGSIZE div PGSIZE;
                  order_pg_alloc = LOG2_UP min_pgs
              in if ge_buf ge = 0 then Inr (w, False)
                 else
                   let total = (push_bit order_pg_alloc 1 * PGSIZE) div sosz;
                       sl = \<lparr>slab_obj_size = sosz, num_busy_obj = 0, num_total_obj = total,
                             free_small_obj = 0, bufctl_freelist = []\<rparr>
                   in case thread_large (w\<lparr>slabs := (slabs w)(a_slab \<mapsto> sl)\<rparr>) a_slab
                             (ge_buf ge) (obj_size cp) sosz (ge_bufctls ge) (unat total) of
                        None \<Rightarrow> Inl Slab_panic_OOM
                      | Some w1 \<Rightarrow>
                          Inr (w1\<lparr>cache := cp\<lparr>empty_slab_list :=
                                                a_slab # empty_slab_list cp\<rparr>\<rparr>, True)))"

text \<open>
  \<open>kmem_cache_alloc\<close>: the world and the object. \<open>error(ENOMEM, ...)\<close> and the
  panic are the two ways out when the cache cannot grow.
\<close>

definition kmem_cache_alloc ::
  "slab_params \<Rightarrow> slab_world \<Rightarrow> flags \<Rightarrow> grow_env \<Rightarrow> slab_error + (slab_world \<times> addr)" where
  "kmem_cache_alloc ps w fl ge =
     (case (case partial_slab_list (cache w) of
              a_slab # rest \<Rightarrow> Inr (w, a_slab)
            | [] \<Rightarrow>
                (case (if empty_slab_list (cache w) = [] then kmem_cache_grow ps w ge
                       else Inr (w, True)) of
                   Inl e \<Rightarrow> Inl e
                 | Inr (w1, grown) \<Rightarrow>
                     if \<not> grown then
                       (if fl AND MEM_ERROR \<noteq> 0 then Inl Slab_ENOMEM else Inl Slab_panic_OOM)
                     else
                       (case empty_slab_list (cache w1) of
                          [] \<Rightarrow> Inl Wild_pointer
                        | a_slab # rest \<Rightarrow>
                            Inr (w1\<lparr>cache := (cache w1)
                                      \<lparr>empty_slab_list := remove1 a_slab (empty_slab_list (cache w1)),
                                       partial_slab_list :=
                                         a_slab # partial_slab_list (cache w1)\<rparr>\<rparr>, a_slab)))) of
        Inl e \<Rightarrow> Inl e
      | Inr (w2, a_slab) \<Rightarrow>
          (case slabs w2 a_slab of
             None \<Rightarrow> Inl Wild_pointer
           | Some sl \<Rightarrow>
               (case (if obj_size (cache w2) \<le> SLAB_LARGE_CUTOFF ps then
                        (case mem w2 (free_small_obj sl + obj_size (cache w2)) of
                           None \<Rightarrow> Inl Wild_pointer
                         | Some nxt \<Rightarrow> Inr (free_small_obj sl, sl\<lparr>free_small_obj := nxt\<rparr>))
                      else
                        (case bufctl_freelist sl of
                           [] \<Rightarrow> Inl Wild_pointer
                         | a_bufctl # rest \<Rightarrow>
                             (case bufctls w2 a_bufctl of
                                None \<Rightarrow> Inl Wild_pointer
                              | Some bc \<Rightarrow> Inr (buf_addr bc, sl\<lparr>bufctl_freelist := rest\<rparr>)))) of
                  Inl e \<Rightarrow> Inl e
                | Inr (retval, sl1) \<Rightarrow>
                    let sl2 = sl1\<lparr>num_busy_obj := num_busy_obj sl1 + 1\<rparr>;
                        cp = cache w2;
                        cp1 = (if num_busy_obj sl2 = num_total_obj sl2
                               then cp\<lparr>partial_slab_list := remove1 a_slab (partial_slab_list cp),
                                       full_slab_list := a_slab # full_slab_list cp\<rparr>
                               else cp)
                    in Inr (w2\<lparr>cache := cp1\<lparr>nr_cur_alloc := nr_cur_alloc cp1 + 1\<rparr>,
                              slabs := (slabs w2)(a_slab \<mapsto> sl2)\<rparr>, retval))))"

text \<open>\<open>kmem_cache_free\<close>.\<close>

definition kmem_cache_free :: "slab_params \<Rightarrow> slab_world \<Rightarrow> addr \<Rightarrow> slab_error + slab_world" where
  "kmem_cache_free ps w buf =
     (case (if obj_size (cache w) \<le> SLAB_LARGE_CUTOFF ps then
              (let a_slab = ROUNDDOWN buf PGSIZE + PGSIZE - sizeof_kmem_slab ps
               in case slabs w a_slab of
                    None \<Rightarrow> Inl Wild_pointer
                  | Some sl \<Rightarrow>
                      Inr (w\<lparr>mem := (mem w)(buf + obj_size (cache w) \<mapsto> free_small_obj sl)\<rparr>,
                           a_slab, sl\<lparr>free_small_obj := buf\<rparr>))
            else
              (case mem w (buf + obj_size (cache w)) of
                 None \<Rightarrow> Inl Wild_pointer
               | Some a_bufctl \<Rightarrow>
                   (case bufctls w a_bufctl of
                      None \<Rightarrow> Inl Wild_pointer
                    | Some bc \<Rightarrow>
                        (case slabs w (my_slab bc) of
                           None \<Rightarrow> Inl Wild_pointer
                         | Some sl \<Rightarrow>
                             Inr (w, my_slab bc,
                                  sl\<lparr>bufctl_freelist := a_bufctl # bufctl_freelist sl\<rparr>))))) of
        Inl e \<Rightarrow> Inl e
      | Inr (w1, a_slab, sl1) \<Rightarrow>
          let sl2 = sl1\<lparr>num_busy_obj := num_busy_obj sl1 - 1\<rparr>;
              cp = (cache w1)\<lparr>nr_cur_alloc := nr_cur_alloc (cache w1) - 1\<rparr>;
              cp1 = (if num_busy_obj sl2 + 1 = num_total_obj sl2
                     then cp\<lparr>full_slab_list := remove1 a_slab (full_slab_list cp),
                             partial_slab_list := a_slab # partial_slab_list cp\<rparr>
                     else if num_busy_obj sl2 = 0
                     then cp\<lparr>partial_slab_list := remove1 a_slab (partial_slab_list cp),
                             empty_slab_list := a_slab # empty_slab_list cp\<rparr>
                     else cp)
          in Inr (w1\<lparr>cache := cp1, slabs := (slabs w1)(a_slab \<mapsto> sl2)\<rparr>))"

text \<open>
  The parameters of a build with \<open>SLAB_LARGE_CUTOFF = PGSIZE / 8\<close>,
  \<open>NUM_BUF_PER_SLAB = 8\<close> and a slab header of 48 bytes.
\<close>

definition std_params :: slab_params where
  "std_params = \<lparr>SLAB_LARGE_CUTOFF = 512, NUM_BUF_PER_SLAB = 8, sizeof_kmem_slab = 48\<rparr>"

definition page_env :: "addr \<Rightarrow> grow_env" where
  "page_env pg = \<lparr>ge_page = pg, ge_slab = 0, ge_buf = 0, ge_bufctls = []\<rparr>"

section \<open>Invariants of an arena\<close>

text \<open>The FREE and the ALLOC tags of the tree, in the order of the tree.\<close>

definition free_tags :: "btag list \<Rightarrow> btag list" where
  "free_tags t = filter (\<lambda>b. bt_status b = BTAG_FREE) t"

definition alloc_tags :: "btag list \<Rightarrow> btag list" where
  "alloc_tags t = filter (\<lambda>b. bt_status b = BTAG_ALLOC) t"

text \<open>
  The three final assertions of \<open>__arena_asserter\<close>, which walks \<open>all_segs\<close> and
  adds up the sizes in \<open>size_t\<close>.
\<close>

definition counters_ok :: "arena \<Rightarrow> bool" where
  "counters_ok a =
     (amt_total_segs a = sum_list (map bt_size (free_tags (all_segs a)))
                         + sum_list (map bt_size (alloc_tags (all_segs a))) \<and>
      amt_alloc_segs a = sum_list (map bt_size (alloc_tags (all_segs a))) \<and>
      nr_allocs a = of_nat (length (alloc_tags (all_segs a))))"

text \<open>
  The lists and the tree hold the same tags: the free lists together hold the FREE tags
  of the tree, each on the list of its size, and the hash chains together hold the ALLOC
  tags, each on the chain of its start.
\<close>

definition lists_ok :: "arena \<Rightarrow> bool" where
  "lists_ok a =
     (length (free_segs a) = ARENA_NR_FREE_LISTS \<and>
      length (alloc_hash a) = ARENA_NR_HASH_LISTS \<and>
      mset (concat (free_segs a)) = mset (free_tags (all_segs a)) \<and>
      mset (concat (alloc_hash a)) = mset (alloc_tags (all_segs a)) \<and>
      (\<forall>i < ARENA_NR_FREE_LISTS. \<forall>bt \<in> set (free_segs a ! i). LOG2_DOWN (bt_size bt) = i) \<and>
      (\<forall>h < ARENA_NR_HASH_LISTS. \<forall>bt \<in> set (alloc_hash a ! h). hash_idx (bt_start bt) = h))"

text \<open>
  The arenas that the public functions make: from \<open>arena_create\<close> or
  \<open>arena_builder\<close>, by calls that return. A caller may set \<open>import_scale\<close>.
\<close>

inductive reachable :: "arena \<Rightarrow> bool" where
  reach_init: "reachable (arena_init q src nf)"
| reach_builder: "reachable (arena_builder q src nf)"
| reach_scale: "reachable a \<Longrightarrow> reachable (a\<lparr>import_scale := k\<rparr>)"
| reach_add: "reachable a \<Longrightarrow> arena_add a base sz fl pg = Inr (a', r) \<Longrightarrow> reachable a'"
| reach_alloc:
    "reachable a \<Longrightarrow> arena_alloc a sz fl evs = Some (Inr (a', p, calls)) \<Longrightarrow> reachable a'"
| reach_xalloc:
    "reachable a \<Longrightarrow>
     arena_xalloc a sz al ph nc mn mx fl evs = Some (Inr (a', p, calls)) \<Longrightarrow> reachable a'"
| reach_free: "reachable a \<Longrightarrow> arena_free a ad sz = Inr (a', calls) \<Longrightarrow> reachable a'"
| reach_xfree: "reachable a \<Longrightarrow> arena_xfree a ad sz = Inr (a', calls) \<Longrightarrow> reachable a'"


section \<open>The boundary tags as linked objects\<close>

text \<open>
  In the source a boundary tag is one object: \<open>all_link\<close> holds it in the tree and
  the one field \<open>misc_link\<close> holds it on the list of unused tags, on a free list or on
  a hash chain. The lists of the sections above are what a walk from each head reads,
  and they say all there is to say as long as every tag is on one list at most. This
  section follows the links themselves, for the functions that run under the lock in
  \<open>arena_alloc\<close> with BESTFIT or INSTANTFIT and in \<open>arena_free\<close>.

  Modelled from the spec: sys/queue.h is not under src/; the spec calls the lists
  intrusive lists. \<open>BSD_LIST_INSERT_HEAD\<close>, \<open>BSD_LIST_REMOVE\<close> and
  \<open>BSD_LIST_FIRST\<close> are taken to be the \<open>LIST\<close> macros of BSD's queue.h, as their
  names say: an element holds \<open>le_next\<close>, the next element, and \<open>le_prev\<close>, the
  address of the pointer that leads to it (the \<open>lh_first\<close> of a head or the
  \<open>le_next\<close> of another element).
\<close>

text \<open>A pointer to a tag is its address; 0 is NULL.\<close>

type_synonym tag_ptr = addr

text \<open>The values of a \<open>struct btag **\<close>: the addresses that \<open>le_prev\<close> holds.\<close>

datatype link_ptr =
    Unused_first
  | Free_first nat
  | Hash_first nat
  | Next_of tag_ptr

record btag_obj =
  tg_start :: addr
  tg_size :: addr
  tg_status :: btag_status
  le_next :: tag_ptr
  le_prev :: link_ptr

text \<open>
  The arena: the memory of the tags, the tree as the pointers it holds in order, the
  \<open>lh_first\<close> of every list, and the counters.
\<close>

record arena_mem =
  tags :: "tag_ptr \<Rightarrow> btag_obj"
  tree :: "tag_ptr list"
  unused_first :: tag_ptr
  free_first :: "tag_ptr list"
  hash_first :: "tag_ptr list"
  total_segs :: addr
  alloc_segs :: addr
  allocs :: addr

definition read_link :: "arena_mem \<Rightarrow> link_ptr \<Rightarrow> tag_ptr" where
  "read_link a l =
     (case l of
        Unused_first \<Rightarrow> unused_first a
      | Free_first i \<Rightarrow> free_first a ! i
      | Hash_first h \<Rightarrow> hash_first a ! h
      | Next_of p \<Rightarrow> le_next (tags a p))"

definition write_link :: "arena_mem \<Rightarrow> link_ptr \<Rightarrow> tag_ptr \<Rightarrow> arena_mem" where
  "write_link a l v =
     (case l of
        Unused_first \<Rightarrow> a\<lparr>unused_first := v\<rparr>
      | Free_first i \<Rightarrow> a\<lparr>free_first := (free_first a)[i := v]\<rparr>
      | Hash_first h \<Rightarrow> a\<lparr>hash_first := (hash_first a)[h := v]\<rparr>
      | Next_of p \<Rightarrow> a\<lparr>tags := (tags a)(p := (tags a p)\<lparr>le_next := v\<rparr>)\<rparr>)"

text \<open>
  \<open>BSD_LIST_INSERT_HEAD(head, elm, misc_link)\<close>: \<open>elm->le_next = head->lh_first\<close>;
  if that is not NULL, \<open>head->lh_first->le_prev = &elm->le_next\<close>; then
  \<open>head->lh_first = elm\<close> and \<open>elm->le_prev = &head->lh_first\<close>.
\<close>

definition list_insert_head :: "arena_mem \<Rightarrow> link_ptr \<Rightarrow> tag_ptr \<Rightarrow> arena_mem" where
  "list_insert_head a head elm =
     (let first = read_link a head;
          a1 = a\<lparr>tags := (tags a)(elm := (tags a elm)\<lparr>le_next := first\<rparr>)\<rparr>;
          a2 = (if first \<noteq> 0
                then a1\<lparr>tags := (tags a1)(first := (tags a1 first)\<lparr>le_prev := Next_of elm\<rparr>)\<rparr>
                else a1);
          a3 = write_link a2 head elm
      in a3\<lparr>tags := (tags a3)(elm := (tags a3 elm)\<lparr>le_prev := head\<rparr>)\<rparr>)"

text \<open>
  \<open>BSD_LIST_REMOVE(elm, misc_link)\<close>: if \<open>elm->le_next\<close> is not NULL,
  \<open>elm->le_next->le_prev = elm->le_prev\<close>; then \<open>*elm->le_prev = elm->le_next\<close>.
\<close>

definition list_remove :: "arena_mem \<Rightarrow> tag_ptr \<Rightarrow> arena_mem" where
  "list_remove a elm =
     (let nxt = le_next (tags a elm);
          a1 = (if nxt \<noteq> 0
                then a\<lparr>tags := (tags a)(nxt := (tags a nxt)\<lparr>le_prev := le_prev (tags a elm)\<rparr>)\<rparr>
                else a)
      in write_link a1 (le_prev (tags a1 elm)) (le_next (tags a1 elm)))"

definition get_btag_mem :: "arena_mem \<Rightarrow> error + (arena_mem \<times> tag_ptr)" where
  "get_btag_mem a =
     (let ret = unused_first a
      in if ret = 0 then Inl Panic_assert else Inr (list_remove a ret, ret))"

definition free_btag_mem :: "arena_mem \<Rightarrow> tag_ptr \<Rightarrow> arena_mem" where
  "free_btag_mem a bt = list_insert_head a Unused_first bt"

definition track_free_seg_mem :: "arena_mem \<Rightarrow> tag_ptr \<Rightarrow> arena_mem" where
  "track_free_seg_mem a bt =
     (let list_idx = LOG2_DOWN (tg_size (tags a bt));
          a1 = a\<lparr>tags := (tags a)(bt := (tags a bt)\<lparr>tg_status := BTAG_FREE\<rparr>)\<rparr>
      in list_insert_head a1 (Free_first list_idx) bt)"

definition untrack_free_seg_mem :: "arena_mem \<Rightarrow> tag_ptr \<Rightarrow> arena_mem" where
  "untrack_free_seg_mem a bt = list_remove a bt"

definition track_alloc_seg_mem :: "arena_mem \<Rightarrow> tag_ptr \<Rightarrow> arena_mem" where
  "track_alloc_seg_mem a bt =
     (let a1 = a\<lparr>tags := (tags a)(bt := (tags a bt)\<lparr>tg_status := BTAG_ALLOC\<rparr>)\<rparr>;
          h = hash_idx (tg_start (tags a1 bt))
      in list_insert_head a1 (Hash_first h) bt)"

text \<open>
  The \<open>BSD_LIST_FOREACH\<close> of \<open>__untrack_alloc_seg\<close>, which on a chain that runs in
  a circle past no tag of that start never ends: the first argument bounds the number
  of tags visited, and \<open>None\<close> says that the bound was reached. \<open>Some 0\<close> is the end
  of the chain.
\<close>

fun chain_find :: "nat \<Rightarrow> (tag_ptr \<Rightarrow> btag_obj) \<Rightarrow> tag_ptr \<Rightarrow> addr \<Rightarrow> tag_ptr option" where
  "chain_find 0 m bt_i s = None"
| "chain_find (Suc n) m bt_i s =
     (if bt_i = 0 then Some 0
      else if tg_start (m bt_i) = s then Some bt_i
      else chain_find n m (le_next (m bt_i)) s)"

definition untrack_alloc_seg_mem ::
  "nat \<Rightarrow> arena_mem \<Rightarrow> addr \<Rightarrow> (error + (arena_mem \<times> tag_ptr)) option" where
  "untrack_alloc_seg_mem n a s =
     (case chain_find n (tags a) (hash_first a ! hash_idx s) s of
        None \<Rightarrow> None
      | Some bt_i \<Rightarrow>
          if bt_i = 0 then Some (Inr (a, 0))
          else
            let a1 = list_remove a bt_i
            in if tg_status (tags a1 bt_i) \<noteq> BTAG_ALLOC then Some (Inl Panic_assert)
               else Some (Inr (a1, bt_i)))"

text \<open>\<open>__insert_btag\<close> on the tree read in order, as \<open>insert_btag\<close> above.\<close>

fun insert_btag_mem ::
  "(tag_ptr \<Rightarrow> btag_obj) \<Rightarrow> tag_ptr list \<Rightarrow> tag_ptr \<Rightarrow> error + tag_ptr list" where
  "insert_btag_mem m [] bt = Inr [bt]"
| "insert_btag_mem m (node # rest) bt =
     (if tg_start (m bt) < tg_start (m node) then Inr (bt # node # rest)
      else if tg_start (m node) < tg_start (m bt) \<or> tg_status (m node) = BTAG_SPAN then
        (case insert_btag_mem m rest bt of Inl e \<Rightarrow> Inl e | Inr t \<Rightarrow> Inr (node # t))
      else Inl Panic_btag_in_tree)"

text \<open>\<open>rb_next\<close> and \<open>rb_prev\<close> of a tag of the tree; 0 is NULL.\<close>

fun rb_next_mem :: "tag_ptr list \<Rightarrow> tag_ptr \<Rightarrow> tag_ptr" where
  "rb_next_mem [] bt = 0"
| "rb_next_mem [node] bt = 0"
| "rb_next_mem (node # nxt # rest) bt =
     (if node = bt then nxt else rb_next_mem (nxt # rest) bt)"

fun rb_prev_mem :: "tag_ptr list \<Rightarrow> tag_ptr \<Rightarrow> tag_ptr" where
  "rb_prev_mem [] bt = 0"
| "rb_prev_mem [node] bt = 0"
| "rb_prev_mem (prv # node # rest) bt =
     (if prv = bt then 0
      else if node = bt then prv else rb_prev_mem (node # rest) bt)"

text \<open>
  \<open>__account_alloc\<close>; \<open>new\<close> is the caller's tag or NULL. The result is the arena and
  whether the caller's tag was used.
\<close>

definition account_alloc_mem ::
  "arena_mem \<Rightarrow> tag_ptr \<Rightarrow> addr \<Rightarrow> tag_ptr \<Rightarrow> error + (arena_mem \<times> bool)" where
  "account_alloc_mem a bt sz new =
     (if tg_status (tags a bt) \<noteq> BTAG_FREE then Inl Panic_assert
      else
        case (if tg_size (tags a bt) \<noteq> sz then
                (if \<not> sz < tg_size (tags a bt) then Inl Panic_assert
                 else
                   case (if new \<noteq> 0 then Inr (a, new) else get_btag_mem a) of
                     Inl e \<Rightarrow> Inl e
                   | Inr (a1, new1) \<Rightarrow>
                       let a2 = a1\<lparr>tags := (tags a1)
                                  (new1 := (tags a1 new1)
                                     \<lparr>tg_start := tg_start (tags a1 bt) + sz,
                                      tg_size := tg_size (tags a1 bt) - sz\<rparr>)\<rparr>;
                           a3 = a2\<lparr>tags := (tags a2)(bt := (tags a2 bt)\<lparr>tg_size := sz\<rparr>)\<rparr>;
                           a4 = track_free_seg_mem a3 new1
                       in case insert_btag_mem (tags a4) (tree a4) new1 of
                            Inl e \<Rightarrow> Inl e
                          | Inr t \<Rightarrow> Inr (a4\<lparr>tree := t\<rparr>, new \<noteq> 0))
              else Inr (a, False)) of
          Inl e \<Rightarrow> Inl e
        | Inr (a5, ret) \<Rightarrow>
            let a6 = track_alloc_seg_mem a5 bt
            in Inr (a6\<lparr>alloc_segs := alloc_segs a6 + sz, allocs := allocs a6 + 1\<rparr>, ret))"

text \<open>\<open>__get_from_freelists\<close>; the tag is NULL when every list from \<open>list_idx\<close> is empty.\<close>

fun first_populated_mem :: "tag_ptr list \<Rightarrow> nat list \<Rightarrow> tag_ptr" where
  "first_populated_mem fs [] = 0"
| "first_populated_mem fs (i # is) =
     (if fs ! i \<noteq> 0 then fs ! i else first_populated_mem fs is)"

definition get_from_freelists_mem :: "arena_mem \<Rightarrow> nat \<Rightarrow> arena_mem \<times> tag_ptr" where
  "get_from_freelists_mem a list_idx =
     (let ret = first_populated_mem (free_first a) [list_idx..<ARENA_NR_FREE_LISTS]
      in if ret = 0 then (a, 0) else (list_remove a ret, ret))"

text \<open>
  The \<open>BSD_LIST_FOREACH\<close> of \<open>__alloc_bestfit\<close>, bounded like \<open>chain_find\<close>; the
  result is \<open>best\<close>.
\<close>

fun bestfit_scan_mem ::
  "nat \<Rightarrow> (tag_ptr \<Rightarrow> btag_obj) \<Rightarrow> tag_ptr \<Rightarrow> addr \<Rightarrow> tag_ptr \<Rightarrow> tag_ptr option" where
  "bestfit_scan_mem 0 m bt_i sz best = None"
| "bestfit_scan_mem (Suc n) m bt_i sz best =
     (if bt_i = 0 then Some best
      else bestfit_scan_mem n m (le_next (m bt_i)) sz
             (if tg_size (m bt_i) \<ge> sz \<and>
                 (best = 0 \<or> tg_size (m best) > tg_size (m bt_i))
              then bt_i else best))"

text \<open>
  \<open>__alloc_bestfit\<close>: the tag that the scan chose goes to \<open>__account_alloc\<close> still
  linked on its free list.
\<close>

definition alloc_bestfit_mem ::
  "nat \<Rightarrow> arena_mem \<Rightarrow> addr \<Rightarrow> (error + (arena_mem \<times> addr)) option" where
  "alloc_bestfit_mem n a sz =
     (let list_idx = LOG2_DOWN sz
      in case bestfit_scan_mem n (tags a) (free_first a ! list_idx) sz 0 of
           None \<Rightarrow> None
         | Some best0 \<Rightarrow>
             let (a1, best) = (if best0 = 0 then get_from_freelists_mem a (list_idx + 1)
                               else (a, best0))
             in if best = 0 then Some (Inr (a1, 0))
                else
                  case account_alloc_mem a1 best sz 0 of
                    Inl e \<Rightarrow> Some (Inl e)
                  | Inr (a2, ret) \<Rightarrow> Some (Inr (a2, tg_start (tags a2 best))))"

definition alloc_instantfit_mem :: "arena_mem \<Rightarrow> addr \<Rightarrow> error + (arena_mem \<times> addr)" where
  "alloc_instantfit_mem a sz =
     (case get_from_freelists_mem a (LOG2_UP sz) of
        (a1, ret) \<Rightarrow>
          if ret = 0 then Inr (a1, 0)
          else
            case account_alloc_mem a1 ret sz 0 of
              Inl e \<Rightarrow> Inl e
            | Inr (a2, r) \<Rightarrow> Inr (a2, tg_start (tags a2 ret)))"

text \<open>\<open>__merge_right_to_left\<close>: the result is the arena and whether the tags merged.\<close>

definition merge_right_to_left_mem ::
  "arena_mem \<Rightarrow> tag_ptr \<Rightarrow> tag_ptr \<Rightarrow> arena_mem \<times> bool" where
  "merge_right_to_left_mem a left right =
     (if tg_status (tags a left) \<noteq> BTAG_FREE then (a, False)
      else if tg_status (tags a right) \<noteq> BTAG_FREE then (a, False)
      else if tg_start (tags a left) + tg_size (tags a left) = tg_start (tags a right) then
        (let a1 = untrack_free_seg_mem (untrack_free_seg_mem a left) right;
             a2 = a1\<lparr>tags := (tags a1)(left := (tags a1 left)
                        \<lparr>tg_size := tg_size (tags a1 left) + tg_size (tags a1 right)\<rparr>)\<rparr>;
             a3 = track_free_seg_mem a2 left;
             a4 = a3\<lparr>tree := remove1 right (tree a3)\<rparr>
         in (free_btag_mem a4 right, True))
      else (a, False))"

text \<open>
  \<open>__coalesce_free_seg\<close>: the result is the arena and \<open>(*to_free_addr,
  *to_free_sz)\<close>, which the caller initialised to \<open>(0, 0)\<close>.
\<close>

definition coalesce_free_seg_mem ::
  "arena_mem \<Rightarrow> tag_ptr \<Rightarrow> arena_mem \<times> addr \<times> addr" where
  "coalesce_free_seg_mem a bt =
     (let bt_n = rb_next_mem (tree a) bt;
          a1 = (if bt_n \<noteq> 0 then fst (merge_right_to_left_mem a bt bt_n) else a);
          bt_p = rb_prev_mem (tree a1) bt;
          (a2, bt2) =
            (if bt_p \<noteq> 0
             then (case merge_right_to_left_mem a1 bt_p bt of
                     (a', m) \<Rightarrow> if m then (a', bt_p) else (a', bt))
             else (a1, bt));
          bt_p2 = rb_prev_mem (tree a2) bt2
      in if bt_p2 \<noteq> 0 \<and> tg_status (tags a2 bt_p2) = BTAG_SPAN
                      \<and> tg_start (tags a2 bt_p2) = tg_start (tags a2 bt2)
                      \<and> tg_size (tags a2 bt_p2) = tg_size (tags a2 bt2)
         then
           (let a3 = untrack_free_seg_mem a2 bt2;
                a4 = free_btag_mem (a3\<lparr>tree := remove1 bt_p2 (tree a3)\<rparr>) bt_p2;
                a5 = free_btag_mem (a4\<lparr>tree := remove1 bt2 (tree a4)\<rparr>) bt2
            in (a5, tg_start (tags a2 bt_p2), tg_size (tags a2 bt_p2)))
         else (a2, 0, 0))"

text \<open>
  \<open>free_from_arena\<close>; the last component lists the calls of \<open>ffunc\<close>, and \<open>None\<close>
  says that the walk of the hash chain reached its bound.
\<close>

definition free_from_arena_mem ::
  "nat \<Rightarrow> arena_mem \<Rightarrow> addr \<Rightarrow> addr \<Rightarrow> (error + (arena_mem \<times> (addr \<times> addr) list)) option"
  where
  "free_from_arena_mem n a ad sz =
     (case untrack_alloc_seg_mem n a ad of
        None \<Rightarrow> None
      | Some (Inl e) \<Rightarrow> Some (Inl e)
      | Some (Inr (a1, bt)) \<Rightarrow>
          if bt = 0 then Some (Inl Panic_unallocated)
          else if tg_size (tags a1 bt) \<noteq> sz then Some (Inl Panic_wrong_size)
          else
            let a2 = a1\<lparr>alloc_segs := alloc_segs a1 - sz, allocs := allocs a1 - 1\<rparr>;
                a3 = track_free_seg_mem a2 bt
            in case coalesce_free_seg_mem a3 bt of
                 (a4, to_free_addr, to_free_sz) \<Rightarrow>
                   Some (Inr (a4\<lparr>total_segs := total_segs a4 - to_free_sz\<rparr>,
                              if to_free_addr \<noteq> 0 then [(to_free_addr, to_free_sz)]
                              else [])))"

text \<open>
  What \<open>__arena_asserter\<close> adds up over the tree: the sizes of the FREE tags, the
  sizes of the ALLOC tags, and the number of ALLOC tags.
\<close>

definition tree_free :: "arena_mem \<Rightarrow> addr" where
  "tree_free a =
     sum_list (map (\<lambda>p. tg_size (tags a p))
                (filter (\<lambda>p. tg_status (tags a p) = BTAG_FREE) (tree a)))"

definition tree_alloc :: "arena_mem \<Rightarrow> addr" where
  "tree_alloc a =
     sum_list (map (\<lambda>p. tg_size (tags a p))
                (filter (\<lambda>p. tg_status (tags a p) = BTAG_ALLOC) (tree a)))"

definition tree_nr_allocs :: "arena_mem \<Rightarrow> nat" where
  "tree_nr_allocs a = length (filter (\<lambda>p. tg_status (tags a p) = BTAG_ALLOC) (tree a))"

text \<open>
  The arena that \<open>arena_create\<close> (no source) and one \<open>arena_add\<close> of
  \<open>[0x1000, 0x3000)\<close> leave behind when the page of 64 tags is at 0x20000:
  \<open>__add_more_btags\<close> pushed \<open>tags[0]\<close> to \<open>tags[63]\<close> on the unused list, so
  \<open>tags[63]\<close>, at 0x20FC0, was its head and became the tag of the segment, and the
  unused list runs from \<open>tags[62]\<close> down to \<open>tags[0]\<close>. \<open>old\<close> is what the memory
  held before, which is what the other fields of the unused tags still hold.
\<close>

definition seg_arena_mem :: "(tag_ptr \<Rightarrow> btag_obj) \<Rightarrow> arena_mem" where
  "seg_arena_mem old =
     \<lparr>tags = (\<lambda>p. if p = 0x20FC0
                   then \<lparr>tg_start = 0x1000, tg_size = 0x2000, tg_status = BTAG_FREE,
                         le_next = 0, le_prev = Free_first 13\<rparr>
                   else if 0x20000 \<le> p \<and> p \<le> 0x20F80 \<and> p AND 0x3F = 0
                   then (old p)\<lparr>le_next := (if p = 0x20000 then 0 else p - 64),
                                le_prev := (if p = 0x20F80 then Unused_first
                                            else Next_of (p + 64))\<rparr>
                   else old p),
      tree = [0x20FC0],
      unused_first = 0x20F80,
      free_first = (replicate ARENA_NR_FREE_LISTS 0)[13 := 0x20FC0],
      hash_first = replicate ARENA_NR_HASH_LISTS 0,
      total_segs = 0x2000, alloc_segs = 0, allocs = 0\<rparr>"
section \<open>Evaluation of the macros and of the scenario arenas\<close>

lemmas macro_defs = ROUNDUP_def ROUNDDOWN_def ALIGNED_def IS_PWR2_def
  PGSIZE_def ARENA_NR_FREE_LISTS_def ARENA_NR_HASH_LISTS_def
  MEM_ATOMIC_def MEM_FLAGS_def MEM_WAIT_def MEM_ERROR_def ARENA_BESTFIT_def ARENA_NEXTFIT_def
  ARENA_INSTANTFIT_def ARENA_ALLOC_STYLES_def Let_def

lemmas op_defs = get_enough_btags_def has_enough_btags_def add_more_btags_def get_btag_def
  track_free_seg_def untrack_free_seg_def track_alloc_seg_def account_alloc_def split_bt_at_def
  hash_idx_def generic_hash_def free_btag_def

lemma LOG2_DOWN_values [simp]:
  "LOG2_DOWN 0x3000 = 13" "LOG2_DOWN 0x1100 = 12" "LOG2_DOWN 0x800 = 11"
  "LOG2_DOWN 0x900 = 11" "LOG2_DOWN 0x2F00 = 13" "LOG2_DOWN 0x1F00 = 12"
  "LOG2_DOWN 0x1000 = 12" "LOG2_DOWN 0x100 = 8" "LOG2_DOWN 0x2000 = 13"
  "LOG2_DOWN 0x1A00 = 12" "LOG2_DOWN 0xF00 = 11" "LOG2_DOWN 0x80 = 7" "LOG2_DOWN 0xE00 = 11"
  "LOG2_DOWN 0x200 = 9" "LOG2_DOWN 0x10000 = 16" "LOG2_DOWN 0xFE00 = 15"
  by (simp_all add: LOG2_DOWN_def log2_nat.simps)

lemma LOG2_UP_values [simp]:
  "LOG2_UP 0x1000 = 12" "LOG2_UP 0x100 = 8" "LOG2_UP 0x800 = 11" "LOG2_UP 0x200 = 9"
  by (simp_all add: LOG2_UP_def LOG2_DOWN_def log2_nat.simps)

lemma seg_arena_sel [simp]:
  "quantum (seg_arena q b s nf) = q" "has_source (seg_arena q b s nf) = False"
  "unused_btags (seg_arena q b s nf) = 63" "is_base (seg_arena q b s nf) = False"
  "last_nextfit_alloc (seg_arena q b s nf) = nf"
  by (simp_all add: seg_arena_def)

lemma seg_arena_built:
  assumes "pg \<noteq> 0"
  shows "arena_add (arena_init 1 False nf) 0 0x3000 0 pg = Inr (seg_arena 1 0 0x3000 nf, 0)"
    and "arena_add (arena_init 0x100 False nf) 0 0x1000 0 pg
         = Inr (seg_arena 0x100 0 0x1000 nf, 0)"
    and "arena_add (arena_init 1 False nf) 0x10000 0x3000 0 pg
         = Inr (seg_arena 1 0x10000 0x3000 nf, 0x10000)"
    and "arena_add (arena_init 0x100 False nf) 0x1000 0x1000 0 pg
         = Inr (seg_arena 0x100 0x1000 0x1000 nf, 0x1000)"
  using assms
  by (simp_all add: arena_add_def arena_add_locked_def arena_init_def seg_arena_def
      op_defs macro_defs)

section \<open>Address 0 is the failure value of the constrained search\<close>

lemma ROUNDUP_zero: "ROUNDUP 0 n = 0"
proof (cases "n = 0")
  case True
  then show ?thesis by (simp add: ROUNDUP_def ROUNDDOWN_def)
next
  case False
  have "(n - 1) mod n = n - 1"
    using False by (intro mod_word_less) unat_arith
  then show ?thesis by (simp add: ROUNDUP_def ROUNDDOWN_def)
qed

lemma find_sufficient_zero_try:
  assumes "ROUNDUP start al + ph = 0"
  shows "find_sufficient start bsize sz al ph nc = 0"
proof (cases "start = 0")
  case False
  then have "ROUNDUP start al + ph < start" using assms
    by (simp add: word_neq_0_conv)
  then show ?thesis by (simp add: find_sufficient.simps)
next
  case True
  have r: "find_sufficient 0 b sz al ph 0 = 0" for b
    using assms True by (simp add: find_sufficient.simps Let_def)
  show ?thesis using assms True r
    by (subst find_sufficient.simps) (simp add: Let_def ROUNDUP_zero)
qed

lemma account_alloc_start:
  "account_alloc a bt sz hn = Inr (a', bt', r) \<Longrightarrow> bt_start bt' = bt_start bt"
  by (auto simp: account_alloc_def Let_def split: if_splits sum.splits)

lemma split_bt_at_start:
  "split_bt_at a bt at = Inr (a', bt') \<Longrightarrow> bt_start bt' = at"
  by (auto simp: split_bt_at_def Let_def split: if_splits sum.splits)

lemma freelists_scan_nonzero:
  "freelists_scan fs is sz al ph nc = Some (i, bt, try) \<Longrightarrow> try \<noteq> 0"
proof (induction "is")
  case Nil
  then show ?case by simp
next
  case (Cons j js)
  then show ?case
    by (auto split: option.splits dest: find_Some_iff[THEN iffD1])
qed

lemma min_max_scan_nonzero:
  "min_max_scan xs sz al ph nc mx = Some (bt, try) \<Longrightarrow> try \<noteq> 0"
  by (induction xs) (auto simp: Let_def split: if_splits)

lemma xalloc_from_freelists_zero:
  "xalloc_from_freelists a sz al ph nc inst = Inr (a', 0) \<Longrightarrow> a' = a"
  by (auto simp: xalloc_from_freelists_def Let_def split: if_splits option.splits sum.splits
      dest!: freelists_scan_nonzero account_alloc_start split_bt_at_start)

lemma xalloc_min_max_zero:
  "xalloc_min_max a sz al ph nc mn mx = Inr (a', 0) \<Longrightarrow> a' = a"
  by (auto simp: xalloc_min_max_def Let_def split: if_splits option.splits sum.splits
      dest!: min_max_scan_nonzero account_alloc_start split_bt_at_start)

lemma xalloc_nextfit_zero:
  "xalloc_nextfit a sz al ph nc = Inr (a', 0) \<Longrightarrow> a' = a"
  by (auto simp: xalloc_nextfit_def split: if_splits sum.splits dest!: xalloc_min_max_zero)

lemma nocross_seg_freelists:
  "xalloc_from_freelists (seg_arena 1 0 0x3000 nf) 0x800 0x100 0 0x1000 inst
   = Inr (seg_arena 1 0 0x3000 nf, 0)"
  by (simp add: xalloc_from_freelists_def seg_arena_def macro_defs upt_rec
      find_sufficient.simps)

lemma nocross_seg_min_max:
  "xalloc_min_max (seg_arena 1 0 0x3000 nf) 0x800 0x100 0 0x1000 mn 0
   = Inr (seg_arena 1 0 0x3000 nf, 0)"
  by (simp add: xalloc_min_max_def seg_arena_def macro_defs find_sufficient.simps)

lemma nocross_seg_nextfit:
  "xalloc_nextfit (seg_arena 1 0 0x3000 nf) 0x800 0x100 0 0x1000
   = Inr (seg_arena 1 0 0x3000 nf, 0)"
  by (simp add: xalloc_nextfit_def nocross_seg_min_max)

lemma nocross_seg_from_arena:
  "xalloc_from_arena (seg_arena 1 0 0x3000 nf) 0x800 0x100 0 0x1000 0 0 fl pg
   = Inr (seg_arena 1 0 0x3000 nf, 0)"
  by (simp add: xalloc_from_arena_def get_enough_btags_def has_enough_btags_def
      nocross_seg_freelists nocross_seg_nextfit)

text \<open>
  C10. The constrained search signals failure with address 0: a call of
  \<open>__xalloc_from_freelists\<close>, \<open>__xalloc_min_max\<close>, \<open>__xalloc_nextfit\<close> or
  \<open>__alloc_nextfit\<close> (\<open>arena_alloc\<close> with NEXTFIT) that returns 0 has allocated
  nothing, the arena is as it was; and a tag whose placement \<open>ROUNDUP(bt_start, align)
  + phase\<close> is address 0 is reported by \<open>__find_sufficient\<close> as not fitting,
  whatever its size, so that the search moves on to the next tag or fails.
\<close>

theorem xalloc_zero_is_failure:
  "(xalloc_from_freelists a sz al ph nc inst = Inr (a', 0) \<longrightarrow> a' = a) \<and>
   (xalloc_min_max a sz al ph nc mn mx = Inr (a', 0) \<longrightarrow> a' = a) \<and>
   (xalloc_nextfit a sz al ph nc = Inr (a', 0) \<longrightarrow> a' = a) \<and>
   (alloc_nextfit a sz = Inr (a', 0) \<longrightarrow> a' = a) \<and>
   (ROUNDUP start al + ph = 0 \<longrightarrow> find_sufficient start bsize sz al ph nc = 0) \<and>
   (find_sufficient (bt_start bt) (bt_size bt) sz al ph nc = 0 \<longrightarrow>
      min_max_scan (bt # rest) sz al ph nc mx = min_max_scan rest sz al ph nc mx)"
proof -
  have "alloc_nextfit a sz = Inr (a', 0) \<longrightarrow> a' = a"
    unfolding alloc_nextfit_def by (blast dest: xalloc_nextfit_zero)
  then show ?thesis
    using xalloc_from_freelists_zero xalloc_min_max_zero xalloc_nextfit_zero
      find_sufficient_zero_try
    by auto
qed

theorem xalloc_zero_is_failure_witness:
  "xalloc_from_freelists (seg_arena 1 0 0x3000 0) 0x800 0x100 0 0x1000 True
     = Inr (seg_arena 1 0 0x3000 0, 0) \<and>
   xalloc_min_max (seg_arena 1 0 0x3000 0) 0x800 0x100 0 0x1000 1 0
     = Inr (seg_arena 1 0 0x3000 0, 0) \<and>
   ROUNDUP 0 0x100 + 0 = 0 \<and>
   find_sufficient 0 0x3000 0x800 0x100 0 0x1000 = 0 \<and>
   min_max_scan [\<lparr>bt_start = 0, bt_size = 0x3000, bt_status = BTAG_FREE\<rparr>]
     0x800 0x100 0 0x1000 0 = None"
  using xalloc_zero_is_failure [of "seg_arena 1 0 0x3000 0" "0x800" "0x100" 0 "0x1000" True
      "seg_arena 1 0 0x3000 0" 1 0 0 "0x3000"
      "\<lparr>bt_start = 0, bt_size = 0x3000, bt_status = BTAG_FREE\<rparr>" "[]"]
  by (simp add: nocross_seg_freelists nocross_seg_min_max ROUNDUP_zero)

section \<open>The nocross scenario\<close>

text \<open>
  C7, as the spec states it, fails: in the arena whose only free segment is
  \<open>[0x0, 0x3000)\<close> with quantum 1, \<open>arena_xalloc\<close> with size 0x800, align 0x100,
  phase 0 and nocross 0x1000 returns none of 0x0, 0x1000, 0x2000: with the default
  flags it panics for lack of memory.
\<close>

theorem nocross_scenario_counterexample:
  "arena_xalloc (seg_arena 1 0 0x3000 0) 0x800 0x100 0 0x1000 0 0 0 [no_env]
   = Some (Inl Panic_OOM)"
  by (simp add: arena_xalloc_def nocross_seg_from_arena get_more_resources_def macro_defs)

lemma find_sufficient_off_zero:
  "find_sufficient 0x900 0x3000 0x800 0x100 0 0x1000 = 0x1000"
  "find_sufficient 0x900 0x3000 0x800 0x100 0 0 = 0x900"
  "find_sufficient 0x1000 0x3000 0x800 0x100 0 0x1000 = 0x1000"
  by (simp_all add: find_sufficient.simps macro_defs)

text \<open>
  C7, amended: the scenario with the segment off address 0. In the arena with quantum 1
  whose only boundary tag is the free segment \<open>[0x900, 0x3900)\<close>, \<open>arena_xalloc\<close>
  with size 0x800, align 0x100, phase 0, nocross 0x1000 and no minaddr or maxaddr
  returns 0x1000, whatever the flags and the cursor: a multiple of nocross, and not
  0x900, whose range \<open>[0x900, 0x1100)\<close> would cross 0x1000 and which the same call
  with nocross 0 returns. When the only tag is the free segment \<open>[0x1000, 0x4000)\<close>
  the call returns 0x1000.
\<close>

theorem nocross_scenario_off_zero:
  "returned (arena_xalloc (seg_arena 1 0x900 0x3000 nf) 0x800 0x100 0 0x1000 0 0 fl
     (ev # evs)) = Some 0x1000 \<and>
   returned (arena_xalloc (seg_arena 1 0x900 0x3000 nf) 0x800 0x100 0 0 0 0 fl
     (ev # evs)) = Some 0x900 \<and>
   returned (arena_xalloc (seg_arena 1 0x1000 0x3000 nf) 0x800 0x100 0 0x1000 0 0 fl
     (ev # evs)) = Some 0x1000 \<and>
   (0x900::addr) div 0x1000 \<noteq> (0x900 + 0x800 - 1) div 0x1000 \<and>
   (0x1000::addr) div 0x1000 = (0x1000 + 0x800 - 1) div 0x1000"
proof -
  have "returned (arena_xalloc (seg_arena 1 0x900 0x3000 nf) 0x800 0x100 0 0x1000 0 0 fl
     (ev # evs)) = Some 0x1000"
    by (simp add: returned_def arena_xalloc_def xalloc_from_arena_def
        xalloc_from_freelists_def xalloc_nextfit_def xalloc_min_max_def
        seg_arena_def op_defs macro_defs upt_rec find_sufficient_off_zero)
  moreover
  have "returned (arena_xalloc (seg_arena 1 0x900 0x3000 nf) 0x800 0x100 0 0 0 0 fl
     (ev # evs)) = Some 0x900"
    by (simp add: returned_def arena_xalloc_def xalloc_from_arena_def
        xalloc_from_freelists_def xalloc_nextfit_def xalloc_min_max_def
        seg_arena_def op_defs macro_defs upt_rec find_sufficient_off_zero)
  moreover
  have "returned (arena_xalloc (seg_arena 1 0x1000 0x3000 nf) 0x800 0x100 0 0x1000 0 0 fl
     (ev # evs)) = Some 0x1000"
    by (simp add: returned_def arena_xalloc_def xalloc_from_arena_def
        xalloc_from_freelists_def xalloc_nextfit_def xalloc_min_max_def
        seg_arena_def op_defs macro_defs upt_rec find_sufficient_off_zero)
  ultimately show ?thesis by simp
qed

theorem nocross_scenario_off_zero_witness:
  "returned (arena_xalloc (seg_arena 1 0x900 0x3000 0) 0x800 0x100 0 0x1000 0 0 0
     [no_env]) = Some 0x1000 \<and>
   returned (arena_xalloc (seg_arena 1 0x900 0x3000 0) 0x800 0x100 0 0 0 0 0
     [no_env]) = Some 0x900"
  using nocross_scenario_off_zero [of 0 0 no_env "[]"] by simp

section \<open>Constraint soundness of xalloc\<close>

lemmas free_defs = arena_free_def free_from_arena_def untrack_alloc_seg_def
  coalesce_free_seg_def merge_right_to_left_def rb_erase_def

text \<open>
  C1 fails on the code for the nocross constraint. In the arena whose only free segment
  is \<open>[0x10000, 0x13000)\<close> with quantum 1, \<open>arena_xalloc\<close> with size 0x800, align
  0x100, phase 0x900 and nocross 0x1000 returns 0x10900, and the range
  \<open>[0x10900, 0x11100)\<close> crosses the boundary 0x11000, although 0x11000 itself
  satisfies every constraint: the second attempt of \<open>__find_sufficient\<close> recurses
  with nocross 0 and returns the first placement again.
\<close>

theorem xalloc_nocross_violated:
  "returned (arena_xalloc (seg_arena 1 0x10000 0x3000 0) 0x800 0x100 0x900 0x1000 0 0 0
     [no_env]) = Some 0x10900 \<and>
   (0x10900::addr) div 0x1000 \<noteq> (0x10900 + 0x800 - 1) div 0x1000 \<and>
   find_sufficient 0x10000 0x3000 0x800 0x100 0x900 0x1000 = 0x10900 \<and>
   (0x11000::addr) mod 0x100 = 0x900 mod 0x100 \<and>
   (0x11000::addr) div 0x1000 = (0x11000 + 0x800 - 1) div 0x1000"
  by (simp add: returned_def arena_xalloc_def xalloc_from_arena_def xalloc_from_freelists_def
      seg_arena_def op_defs macro_defs upt_rec find_sufficient.simps)

theorem xalloc_nocross_violated_witness:
  "returned (arena_xalloc (seg_arena 1 0x10000 0x3000 0) 0x800 0x100 0x900 0x1000 0 0 0
     [no_env]) \<noteq> None"
  using xalloc_nocross_violated by simp

section \<open>The next-fit scenario\<close>

lemma nextfit_seg_from_arena:
  "alloc_from_arena (seg_arena 0x100 0 0x1000 nf) 0x100 ARENA_NEXTFIT pg
   = Inr (seg_arena 0x100 0 0x1000 nf, 0)"
  "alloc_from_arena (seg_arena 0x100 0 0x1000 nf) 0x100 (ARENA_NEXTFIT OR MEM_ATOMIC) pg
   = Inr (seg_arena 0x100 0 0x1000 nf, 0)"
  by (simp_all add: alloc_from_arena_def alloc_nextfit_def xalloc_nextfit_def
      xalloc_min_max_def seg_arena_def op_defs macro_defs find_sufficient.simps)

text \<open>
  C6, as the spec states it, fails: in the arena whose only span is \<open>[0x0, 0x1000)\<close>
  with quantum 0x100, the first \<open>arena_alloc(0x100, NEXTFIT)\<close> does not return 0x0;
  it panics for lack of memory.
\<close>

theorem nextfit_scenario_counterexample:
  "arena_alloc (seg_arena 0x100 0 0x1000 0) 0x100 ARENA_NEXTFIT [no_env]
   = Some (Inl Panic_OOM)"
  apply (simp add: arena_alloc_def ROUNDUP_def ROUNDDOWN_def nextfit_seg_from_arena)
  apply (simp add: get_more_resources_def macro_defs)
  done

lemma LOG2_DOWN_tail [simp]:
  "LOG2_DOWN 0xD00 = 11" "LOG2_DOWN 0xC00 = 11" "LOG2_DOWN 0xB00 = 11" "LOG2_DOWN 0xA00 = 11"
  "LOG2_DOWN 0x700 = 10" "LOG2_DOWN 0x600 = 10" "LOG2_DOWN 0x500 = 10" "LOG2_DOWN 0x400 = 10"
  "LOG2_DOWN 0x300 = 9"
  by (simp_all add: LOG2_DOWN_def log2_nat.simps)

text \<open>
  C6, amended: the scenario with the span off address 0. In the arena whose only span
  is \<open>[0x1000, 0x2000)\<close> with quantum 0x100, whatever the cursor
  \<open>last_nextfit_alloc\<close> holds at first, two successive \<open>arena_alloc(0x100,
  NEXTFIT)\<close> return 0x1000 and then 0x1100; after the allocation at 0x1000 is freed,
  the next NEXTFIT allocation of 0x100 returns 0x1200 (the cursor moves on past the
  freed lower address), and NEXTFIT finds 0x1000 again only after the tail of the
  segment is exhausted: the allocations that follow return 0x1300, 0x1400, ... up to
  0x1F00, and only the one after those wraps and returns 0x1000.
\<close>

theorem nextfit_scenario_off_zero:
  "\<exists>a1 a2 a3 a4 a5 a6 a7 a8 a9 a10 a11 a12 a13 a14 a15 a16 a17 a18.
      arena_alloc (seg_arena 0x100 0x1000 0x1000 nf) 0x100 ARENA_NEXTFIT [no_env]
        = Some (Inr (a1, 0x1000, [])) \<and>
      arena_alloc a1 0x100 ARENA_NEXTFIT [no_env] = Some (Inr (a2, 0x1100, [])) \<and>
      arena_free a2 0x1000 0x100 = Inr (a3, []) \<and>
      arena_alloc a3 0x100 ARENA_NEXTFIT [no_env] = Some (Inr (a4, 0x1200, [])) \<and>
      arena_alloc a4 0x100 ARENA_NEXTFIT [no_env] = Some (Inr (a5, 0x1300, [])) \<and>
      arena_alloc a5 0x100 ARENA_NEXTFIT [no_env] = Some (Inr (a6, 0x1400, [])) \<and>
      arena_alloc a6 0x100 ARENA_NEXTFIT [no_env] = Some (Inr (a7, 0x1500, [])) \<and>
      arena_alloc a7 0x100 ARENA_NEXTFIT [no_env] = Some (Inr (a8, 0x1600, [])) \<and>
      arena_alloc a8 0x100 ARENA_NEXTFIT [no_env] = Some (Inr (a9, 0x1700, [])) \<and>
      arena_alloc a9 0x100 ARENA_NEXTFIT [no_env] = Some (Inr (a10, 0x1800, [])) \<and>
      arena_alloc a10 0x100 ARENA_NEXTFIT [no_env] = Some (Inr (a11, 0x1900, [])) \<and>
      arena_alloc a11 0x100 ARENA_NEXTFIT [no_env] = Some (Inr (a12, 0x1A00, [])) \<and>
      arena_alloc a12 0x100 ARENA_NEXTFIT [no_env] = Some (Inr (a13, 0x1B00, [])) \<and>
      arena_alloc a13 0x100 ARENA_NEXTFIT [no_env] = Some (Inr (a14, 0x1C00, [])) \<and>
      arena_alloc a14 0x100 ARENA_NEXTFIT [no_env] = Some (Inr (a15, 0x1D00, [])) \<and>
      arena_alloc a15 0x100 ARENA_NEXTFIT [no_env] = Some (Inr (a16, 0x1E00, [])) \<and>
      arena_alloc a16 0x100 ARENA_NEXTFIT [no_env] = Some (Inr (a17, 0x1F00, [])) \<and>
      arena_alloc a17 0x100 ARENA_NEXTFIT [no_env] = Some (Inr (a18, 0x1000, []))"
  by (simp add: arena_alloc_def alloc_from_arena_def alloc_nextfit_def xalloc_nextfit_def
      xalloc_min_max_def seg_arena_def op_defs macro_defs find_sufficient.simps free_defs
      no_env_def)

theorem nextfit_scenario_off_zero_witness:
  "returned (arena_alloc (seg_arena 0x100 0x1000 0x1000 0) 0x100 ARENA_NEXTFIT [no_env])
   = Some 0x1000"
  using nextfit_scenario_off_zero [of 0] by (auto simp: returned_def)

section \<open>Free\<close>

lemma log2_nat_less: "n < 2 ^ Suc k \<Longrightarrow> log2_nat n \<le> k"
proof (induction k arbitrary: n)
  case 0
  then show ?case by (simp add: log2_nat.simps)
next
  case (Suc k)
  show ?case
  proof (cases "n < 2")
    case True
    then show ?thesis by (simp add: log2_nat.simps)
  next
    case False
    have "n div 2 < 2 ^ Suc k" using Suc.prems by simp
    then have "log2_nat (n div 2) \<le> k" by (rule Suc.IH)
    then show ?thesis using False by (subst log2_nat.simps) simp
  qed
qed

lemma LOG2_DOWN_less: "LOG2_DOWN x < ARENA_NR_FREE_LISTS"
proof -
  have "unat x < 2 ^ Suc 63" using unsigned_less [of x, where ?'a = nat] by simp
  then have "log2_nat (unat x) \<le> 63" by (rule log2_nat_less)
  then show ?thesis by (simp add: LOG2_DOWN_def ARENA_NR_FREE_LISTS_def)
qed

lemma replicate_update_same: "(replicate n x)[i := x] = replicate n x"
  by (cases "i < n") (simp_all add: list_eq_iff_nth_eq nth_list_update)

lemma merge_keeps:
  "merge_right_to_left a l r = (a', m, l') \<Longrightarrow>
   alloc_hash a' = alloc_hash a \<and> amt_alloc_segs a' = amt_alloc_segs a \<and>
   nr_allocs a' = nr_allocs a \<and> amt_total_segs a' = amt_total_segs a \<and>
   quantum a' = quantum a"
  by (auto simp: merge_right_to_left_def Let_def track_free_seg_def untrack_free_seg_def
      free_btag_def split: if_splits)

lemma coalesce_keeps:
  assumes "coalesce_free_seg a bt = (a', ta, ts)"
  shows "alloc_hash a' = alloc_hash a \<and> amt_alloc_segs a' = amt_alloc_segs a \<and>
   nr_allocs a' = nr_allocs a \<and> amt_total_segs a' = amt_total_segs a \<and>
   quantum a' = quantum a"
proof -
  obtain a1 bt1 where s1: "(case rb_next (all_segs a) bt of
               None \<Rightarrow> (a, bt)
             | Some bt_n \<Rightarrow>
                 (case merge_right_to_left a bt bt_n of (a', m, bt') \<Rightarrow> (a', bt'))) = (a1, bt1)"
    by fastforce
  obtain a2 bt2 where s2: "(case rb_prev (all_segs a1) bt1 of
               None \<Rightarrow> (a1, bt1)
             | Some bt_p \<Rightarrow>
                 (case merge_right_to_left a1 bt_p bt1 of
                    (a', m, bt_p') \<Rightarrow> if m then (a', bt_p') else (a', bt1))) = (a2, bt2)"
    by fastforce
  have k1: "alloc_hash a1 = alloc_hash a \<and> amt_alloc_segs a1 = amt_alloc_segs a \<and>
   nr_allocs a1 = nr_allocs a \<and> amt_total_segs a1 = amt_total_segs a \<and>
   quantum a1 = quantum a"
    using s1 by (auto split: option.splits prod.splits dest: merge_keeps)
  have k2: "alloc_hash a2 = alloc_hash a1 \<and> amt_alloc_segs a2 = amt_alloc_segs a1 \<and>
   nr_allocs a2 = nr_allocs a1 \<and> amt_total_segs a2 = amt_total_segs a1 \<and>
   quantum a2 = quantum a1"
    using s2 by (auto split: option.splits prod.splits if_splits dest: merge_keeps)
  have "alloc_hash a' = alloc_hash a2 \<and> amt_alloc_segs a' = amt_alloc_segs a2 \<and>
   nr_allocs a' = nr_allocs a2 \<and> amt_total_segs a' = amt_total_segs a2 \<and>
   quantum a' = quantum a2"
    using assms s1 s2
    by (auto simp: coalesce_free_seg_def Let_def untrack_free_seg_def free_btag_def
        split: option.splits if_splits)
  then show ?thesis using k1 k2 by simp
qed

lemma one_alloc_arena_built:
  "arena_alloc (seg_arena 0x100 0x1000 0x1000 0) 0x80 0 [no_env]
   = Some (Inr (one_alloc_arena, 0x1000, []))"
  by (simp add: arena_alloc_def alloc_from_arena_def alloc_instantfit_def
      get_from_freelists_def seg_arena_def op_defs macro_defs upt_rec no_env_def
      one_alloc_arena_def replicate_update_same)

text \<open>
  C8, as the spec states it, fails: the allocation at 0x1000 is recorded with size
  0x100, the caller frees it with size 0x80, which differs, and \<open>arena_free\<close> does
  not panic: it rounds the caller's size up to the quantum first. The free merges the
  segment back, and the arena is the one before the allocation.
\<close>

theorem arena_free_size_counterexample:
  "find (\<lambda>b. bt_start b = 0x1000) (alloc_hash one_alloc_arena ! hash_idx 0x1000)
     = Some \<lparr>bt_start = 0x1000, bt_size = 0x100, bt_status = BTAG_ALLOC\<rparr> \<and>
   \<not> isl (arena_free one_alloc_arena 0x1000 0x80)"
  by (simp add: one_alloc_arena_def free_defs op_defs macro_defs)

text \<open>
  C8, amended. Where every tag on the hash chain of \<open>addr\<close> is an ALLOC tag (as
  \<open>__arena_asserter\<close> asserts), \<open>arena_free(arena, addr, size)\<close> panics if and
  only if the chain has no tag that starts at \<open>addr\<close>, or the size recorded in that
  tag differs from the caller's size rounded up to the quantum. Otherwise it takes the
  tag off the hash chain, lowers \<open>amt_alloc_segs\<close> by the tag's size and
  \<open>nr_allocs\<close> by one, marks the tag FREE in the tree and puts it at the head of
  the free list of its size, and then coalesces from that arena.
\<close>

theorem arena_free_panics_iff:
  assumes st: "\<forall>bt \<in> set (alloc_hash a ! hash_idx ad). bt_status bt = BTAG_ALLOC"
      and len: "length (free_segs a) = ARENA_NR_FREE_LISTS"
  shows "((\<exists>e. arena_free a ad sz = Inl e) \<longleftrightarrow>
           (find (\<lambda>b. bt_start b = ad) (alloc_hash a ! hash_idx ad) = None \<or>
            (\<exists>bt. find (\<lambda>b. bt_start b = ad) (alloc_hash a ! hash_idx ad) = Some bt \<and>
                  bt_size bt \<noteq> ROUNDUP sz (quantum a)))) \<and>
         (\<forall>bt. find (\<lambda>b. bt_start b = ad) (alloc_hash a ! hash_idx ad) = Some bt \<and>
               bt_size bt = ROUNDUP sz (quantum a) \<longrightarrow>
            (\<exists>a3 a4 ta ts calls.
               all_segs a3 = tree_set (all_segs a) bt (bt\<lparr>bt_status := BTAG_FREE\<rparr>) \<and>
               free_segs a3 ! LOG2_DOWN (bt_size bt)
                 = bt\<lparr>bt_status := BTAG_FREE\<rparr> # free_segs a ! LOG2_DOWN (bt_size bt) \<and>
               coalesce_free_seg a3 (bt\<lparr>bt_status := BTAG_FREE\<rparr>) = (a4, ta, ts) \<and>
               arena_free a ad sz
                 = Inr (a4\<lparr>amt_total_segs := amt_total_segs a4 - ts\<rparr>, calls) \<and>
               alloc_hash a4 = (alloc_hash a)
                 [hash_idx ad := remove1 bt (alloc_hash a ! hash_idx ad)] \<and>
               amt_alloc_segs a4 = amt_alloc_segs a - bt_size bt \<and>
               nr_allocs a4 = nr_allocs a - 1))"
proof (cases "find (\<lambda>b. bt_start b = ad) (alloc_hash a ! hash_idx ad)")
  case None
  then show ?thesis
    by (simp add: arena_free_def free_from_arena_def untrack_alloc_seg_def)
next
  case (Some bt)
  then have "bt \<in> set (alloc_hash a ! hash_idx ad)"
    by (auto simp: find_Some_iff)
  then have al: "bt_status bt = BTAG_ALLOC" using st by blast
  show ?thesis
  proof (cases "bt_size bt = ROUNDUP sz (quantum a)")
    case False
    then show ?thesis using Some al
      by (simp add: arena_free_def free_from_arena_def untrack_alloc_seg_def Let_def)
  next
    case True
    let ?bt1 = "bt\<lparr>bt_status := BTAG_FREE\<rparr>"
    define a1 where "a1 = a\<lparr>alloc_hash := (alloc_hash a)
                           [hash_idx ad := remove1 bt (alloc_hash a ! hash_idx ad)]\<rparr>"
    define a2 where "a2 = a1\<lparr>amt_alloc_segs := amt_alloc_segs a1 - bt_size bt,
                        nr_allocs := nr_allocs a1 - 1\<rparr>"
    define a3 where "a3 = track_free_seg (a2\<lparr>all_segs := tree_set (all_segs a2) bt ?bt1\<rparr>) ?bt1"
    obtain a4 ta ts where co: "coalesce_free_seg a3 ?bt1 = (a4, ta, ts)"
      by (cases "coalesce_free_seg a3 ?bt1") auto
    have fr: "arena_free a ad sz = Inr (a4\<lparr>amt_total_segs := amt_total_segs a4 - ts\<rparr>,
                if ta \<noteq> 0 then [(ta, ts)] else [])"
      using Some al True co
      by (simp add: arena_free_def free_from_arena_def untrack_alloc_seg_def Let_def
          a3_def a2_def a1_def)
    have k: "alloc_hash a4 = alloc_hash a3 \<and> amt_alloc_segs a4 = amt_alloc_segs a3 \<and>
             nr_allocs a4 = nr_allocs a3"
      using coalesce_keeps [OF co] by simp
    have p1: "all_segs a3 = tree_set (all_segs a) bt ?bt1"
      by (simp add: a3_def a2_def a1_def track_free_seg_def Let_def)
    have p2: "free_segs a3 ! LOG2_DOWN (bt_size bt) = ?bt1 # free_segs a ! LOG2_DOWN (bt_size bt)"
      using LOG2_DOWN_less [of "bt_size bt"] len
      by (simp add: a3_def a2_def a1_def track_free_seg_def Let_def)
    have p3: "alloc_hash a3 = (alloc_hash a)
                 [hash_idx ad := remove1 bt (alloc_hash a ! hash_idx ad)] \<and>
              amt_alloc_segs a3 = amt_alloc_segs a - bt_size bt \<and>
              nr_allocs a3 = nr_allocs a - 1"
      by (simp add: a3_def a2_def a1_def track_free_seg_def Let_def)
    have part2: "\<exists>a3 a4 ta ts calls.
               all_segs a3 = tree_set (all_segs a) bt ?bt1 \<and>
               free_segs a3 ! LOG2_DOWN (bt_size bt)
                 = ?bt1 # free_segs a ! LOG2_DOWN (bt_size bt) \<and>
               coalesce_free_seg a3 ?bt1 = (a4, ta, ts) \<and>
               arena_free a ad sz
                 = Inr (a4\<lparr>amt_total_segs := amt_total_segs a4 - ts\<rparr>, calls) \<and>
               alloc_hash a4 = (alloc_hash a)
                 [hash_idx ad := remove1 bt (alloc_hash a ! hash_idx ad)] \<and>
               amt_alloc_segs a4 = amt_alloc_segs a - bt_size bt \<and>
               nr_allocs a4 = nr_allocs a - 1"
      apply (rule exI [of _ a3], rule exI [of _ a4], rule exI [of _ ta], rule exI [of _ ts])
      apply (rule exI [of _ "if ta \<noteq> 0 then [(ta, ts)] else []"])
      using fr co p1 p2 p3 k apply simp
      done
    have part1: "\<not> (\<exists>e. arena_free a ad sz = Inl e)" using fr by simp
    show ?thesis using part1 part2 Some True by simp
  qed
qed

theorem arena_free_panics_iff_witness:
  "(\<exists>e. arena_free one_alloc_arena 0x1000 0x200 = Inl e) \<and>
   (\<exists>e. arena_free one_alloc_arena 0x2000 0x100 = Inl e) \<and>
   \<not> (\<exists>e. arena_free one_alloc_arena 0x1000 0x80 = Inl e)"
proof -
  have h1: "\<forall>bt \<in> set (alloc_hash one_alloc_arena ! hash_idx 0x1000).
              bt_status bt = BTAG_ALLOC"
    by (simp add: one_alloc_arena_def hash_idx_def generic_hash_def macro_defs)
  have h2: "\<forall>bt \<in> set (alloc_hash one_alloc_arena ! hash_idx 0x2000).
              bt_status bt = BTAG_ALLOC"
    by (simp add: one_alloc_arena_def hash_idx_def generic_hash_def macro_defs)
  have len: "length (free_segs one_alloc_arena) = ARENA_NR_FREE_LISTS"
    by (simp add: one_alloc_arena_def)
  show ?thesis
    using arena_free_panics_iff [OF h1 len, of "0x200"]
      arena_free_panics_iff [OF h2 len, of "0x100"]
      arena_free_panics_iff [OF h1 len, of "0x80"]
    by (simp add: one_alloc_arena_def hash_idx_def generic_hash_def macro_defs)
qed

section \<open>Slab lifecycle\<close>

lemmas slab_defs = kmem_cache_alloc_def kmem_cache_free_def kmem_cache_grow_def
  kmem_cache_create_def std_params_def page_env_def

text \<open>
  What \<open>kmem_cache_free\<close> does to the owning slab and the lists: the busy counter
  goes down by one; a slab that was full goes from the full list to the head of the
  partial list; any other slab whose counter reaches zero goes from the partial list to
  the head of the empty list.
\<close>

lemma kmem_cache_free_effect:
  assumes "kmem_cache_free ps w buf = Inr w'"
  shows "\<exists>a_slab sl sl'.
           slabs w a_slab = Some sl \<and> slabs w' a_slab = Some sl' \<and>
           num_busy_obj sl' = num_busy_obj sl - 1 \<and> num_total_obj sl' = num_total_obj sl \<and>
           (if num_busy_obj sl = num_total_obj sl
            then full_slab_list (cache w') = remove1 a_slab (full_slab_list (cache w)) \<and>
                 partial_slab_list (cache w') = a_slab # partial_slab_list (cache w) \<and>
                 empty_slab_list (cache w') = empty_slab_list (cache w)
            else if num_busy_obj sl' = 0
            then full_slab_list (cache w') = full_slab_list (cache w) \<and>
                 partial_slab_list (cache w') = remove1 a_slab (partial_slab_list (cache w)) \<and>
                 empty_slab_list (cache w') = a_slab # empty_slab_list (cache w)
            else full_slab_list (cache w') = full_slab_list (cache w) \<and>
                 partial_slab_list (cache w') = partial_slab_list (cache w) \<and>
                 empty_slab_list (cache w') = empty_slab_list (cache w))"
proof (cases "obj_size (cache w) \<le> SLAB_LARGE_CUTOFF ps")
  case True
  let ?s = "ROUNDDOWN buf PGSIZE + PGSIZE - sizeof_kmem_slab ps"
  from assms True obtain sl where sl: "slabs w ?s = Some sl"
    by (auto simp: kmem_cache_free_def Let_def split: option.splits)
  let ?sl' = "sl\<lparr>free_small_obj := buf, num_busy_obj := num_busy_obj sl - 1\<rparr>"
  have r1: "slabs w' ?s = Some ?sl'"
    using assms True sl by (auto simp: kmem_cache_free_def Let_def split: if_splits)
  have r2: "(if num_busy_obj sl = num_total_obj sl
            then full_slab_list (cache w') = remove1 ?s (full_slab_list (cache w)) \<and>
                 partial_slab_list (cache w') = ?s # partial_slab_list (cache w) \<and>
                 empty_slab_list (cache w') = empty_slab_list (cache w)
            else if num_busy_obj ?sl' = 0
            then full_slab_list (cache w') = full_slab_list (cache w) \<and>
                 partial_slab_list (cache w') = remove1 ?s (partial_slab_list (cache w)) \<and>
                 empty_slab_list (cache w') = ?s # empty_slab_list (cache w)
            else full_slab_list (cache w') = full_slab_list (cache w) \<and>
                 partial_slab_list (cache w') = partial_slab_list (cache w) \<and>
                 empty_slab_list (cache w') = empty_slab_list (cache w))"
    using assms True sl by (auto simp: kmem_cache_free_def Let_def split: if_splits)
  show ?thesis
    apply (rule exI [of _ ?s], rule exI [of _ sl], rule exI [of _ ?sl'])
    using sl r1 r2 apply simp
    done
next
  case False
  from assms False obtain bc_a bc sl where m: "mem w (buf + obj_size (cache w)) = Some bc_a"
    and b: "bufctls w bc_a = Some bc" and sl: "slabs w (my_slab bc) = Some sl"
    by (auto simp: kmem_cache_free_def Let_def split: option.splits)
  let ?s = "my_slab bc"
  let ?sl' = "sl\<lparr>bufctl_freelist := bc_a # bufctl_freelist sl,
                 num_busy_obj := num_busy_obj sl - 1\<rparr>"
  have r1: "slabs w' ?s = Some ?sl'"
    using assms False m b sl by (auto simp: kmem_cache_free_def Let_def split: if_splits)
  have r2: "(if num_busy_obj sl = num_total_obj sl
            then full_slab_list (cache w') = remove1 ?s (full_slab_list (cache w)) \<and>
                 partial_slab_list (cache w') = ?s # partial_slab_list (cache w) \<and>
                 empty_slab_list (cache w') = empty_slab_list (cache w)
            else if num_busy_obj ?sl' = 0
            then full_slab_list (cache w') = full_slab_list (cache w) \<and>
                 partial_slab_list (cache w') = remove1 ?s (partial_slab_list (cache w)) \<and>
                 empty_slab_list (cache w') = ?s # empty_slab_list (cache w)
            else full_slab_list (cache w') = full_slab_list (cache w) \<and>
                 partial_slab_list (cache w') = partial_slab_list (cache w) \<and>
                 empty_slab_list (cache w') = empty_slab_list (cache w))"
    using assms False m b sl by (auto simp: kmem_cache_free_def Let_def split: if_splits)
  show ?thesis
    apply (rule exI [of _ ?s], rule exI [of _ sl], rule exI [of _ ?sl'])
    using sl r1 r2 apply simp
    done
qed

text \<open>
  C9 fails on the code for a slab that holds one object. A cache with \<open>obj_size = 64\<close>
  and \<open>align = 2048\<close> has slabs of one object (\<open>(4096 - 48) / 2048\<close>). Allocating
  that object moves the slab to the full list; freeing it brings the busy counter to
  zero, and the slab is put on the partial list, not on the empty list: the test for
  zero is the \<open>else\<close> branch of the test for a slab that was full.
\<close>

theorem one_object_slab_stays_partial:
  "\<exists>w1 w2 sl.
     kmem_cache_alloc std_params (kmem_cache_create 64 2048) 0 (page_env 0x10000)
       = Inr (w1, 0x10000) \<and>
     full_slab_list (cache w1) = [0x10FD0] \<and>
     kmem_cache_free std_params w1 0x10000 = Inr w2 \<and>
     slabs w2 0x10FD0 = Some sl \<and> num_busy_obj sl = 0 \<and> num_total_obj sl = 1 \<and>
     full_slab_list (cache w2) = [] \<and>
     partial_slab_list (cache w2) = [0x10FD0] \<and>
     empty_slab_list (cache w2) = []"
  by (simp add: slab_defs macro_defs)

theorem one_object_slab_stays_partial_witness:
  "\<exists>w1. kmem_cache_alloc std_params (kmem_cache_create 64 2048) 0 (page_env 0x10000)
       = Inr (w1, 0x10000)"
  using one_object_slab_stays_partial by blast


section \<open>The counters after a best-fit allocation\<close>

lemmas mem_defs = alloc_instantfit_mem_def alloc_bestfit_mem_def free_from_arena_mem_def
  coalesce_free_seg_mem_def merge_right_to_left_mem_def get_from_freelists_mem_def
  account_alloc_mem_def untrack_alloc_seg_mem_def track_alloc_seg_mem_def
  track_free_seg_mem_def untrack_free_seg_mem_def free_btag_mem_def get_btag_mem_def
  list_remove_def list_insert_head_def read_link_def write_link_def seg_arena_mem_def
  hash_idx_def generic_hash_def tree_free_def tree_alloc_def tree_nr_allocs_def

text \<open>
  C2 fails on the code. In the arena with the one segment \<open>[0x1000, 0x3000)\<close>,
  \<open>arena_alloc(0x1000)\<close> with the default flags returns 0x1000 and leaves the rest,
  \<open>[0x2000, 0x3000)\<close>, on free list 12. \<open>arena_alloc(0x1000, ARENA_BESTFIT)\<close> finds
  that tag in its scan and returns 0x2000, and the tag is now on its hash chain and
  still the head of free list 12. \<open>arena_free(0x2000, 0x1000)\<close> pushes it on free list
  12 again, so that it is its own successor, and \<open>arena_free(0x1000, 0x1000)\<close>
  merges the two tags: \<open>BSD_LIST_REMOVE\<close> of the right tag leaves it the head of free
  list 12, it leaves the tree and goes to the unused list, still FREE in its status
  field. The next \<open>arena_alloc(0x1000)\<close> takes it from free list 12 and returns 0x2000:
  \<open>nr_allocs\<close> is 1 and \<open>amt_alloc_segs\<close> is 0x1000, while the tree holds the one tag
  \<open>[0x1000, 0x3000)\<close>, which is FREE, so that the tree has no ALLOC tag at all. Under
  the lock the calls are those of the statement: the sizes are multiples of the quantum,
  and \<open>__get_enough_btags\<close> returns at once, the unused list not being empty. The
  walks end whatever bound of at least two tags they are given.
\<close>

theorem bestfit_breaks_counters:
  "\<exists>a1 a2 a3 a4 a5.
     alloc_instantfit_mem (seg_arena_mem old) 0x1000 = Inr (a1, 0x1000) \<and>
     alloc_bestfit_mem (Suc (Suc n)) a1 0x1000 = Some (Inr (a2, 0x2000)) \<and>
     free_first a2 ! 12 = 0x20F80 \<and> hash_first a2 ! hash_idx 0x2000 = 0x20F80 \<and>
     tg_status (tags a2 0x20F80) = BTAG_ALLOC \<and>
     free_from_arena_mem (Suc (Suc n)) a2 0x2000 0x1000 = Some (Inr (a3, [])) \<and>
     free_from_arena_mem (Suc (Suc n)) a3 0x1000 0x1000 = Some (Inr (a4, [])) \<and>
     tree a4 = [0x20FC0] \<and> free_first a4 ! 12 = 0x20F80 \<and> unused_first a4 = 0x20F80 \<and>
     alloc_instantfit_mem a4 0x1000 = Inr (a5, 0x2000) \<and>
     tree a5 = [0x20FC0] \<and>
     tg_start (tags a5 0x20FC0) = 0x1000 \<and> tg_size (tags a5 0x20FC0) = 0x2000 \<and>
     tg_status (tags a5 0x20FC0) = BTAG_FREE \<and>
     allocs a5 = 1 \<and> tree_nr_allocs a5 = 0 \<and>
     alloc_segs a5 = 0x1000 \<and> tree_alloc a5 = 0 \<and>
     total_segs a5 = 0x2000 \<and> tree_free a5 = 0x2000"
  by (simp add: mem_defs macro_defs upt_rec cong: let_weak_cong)

theorem bestfit_breaks_counters_witness:
  "\<exists>a1 a2 a3 a4 a5.
     alloc_instantfit_mem (seg_arena_mem (\<lambda>p. \<lparr>tg_start = 0, tg_size = 0,
         tg_status = BTAG_FREE, le_next = 0, le_prev = Unused_first\<rparr>)) 0x1000
       = Inr (a1, 0x1000) \<and>
     alloc_bestfit_mem 2 a1 0x1000 = Some (Inr (a2, 0x2000)) \<and>
     free_from_arena_mem 2 a2 0x2000 0x1000 = Some (Inr (a3, [])) \<and>
     free_from_arena_mem 2 a3 0x1000 0x1000 = Some (Inr (a4, [])) \<and>
     alloc_instantfit_mem a4 0x1000 = Inr (a5, 0x2000) \<and>
     allocs a5 = 1 \<and> tree_nr_allocs a5 = 0"
  using bestfit_breaks_counters [of "\<lambda>p. \<lparr>tg_start = 0, tg_size = 0,
         tg_status = BTAG_FREE, le_next = 0, le_prev = Unused_first\<rparr>" 0]
  by (auto simp: numeral_2_eq_2)

end
